theory Spec2Isabelle
  imports Complex_Main "HOL-Library.Sublist"
begin

section \<open>JavaScript strings\<close>

text \<open>
  A JavaScript string is modelled as a \<^typ>\<open>string\<close>: one \<^typ>\<open>char\<close> per code unit.
  \<open>startsAt needle hay\<close> says that \<open>needle\<close> occurs in \<open>hay\<close> at position 0, and
  \<open>str_includes hay needle\<close> is \<^verbatim>\<open>hay.includes(needle)\<close>: \<open>needle\<close> occurs at some
  position of \<open>hay\<close>.
\<close>

fun startsAt :: "string \<Rightarrow> string \<Rightarrow> bool" where
  "startsAt [] hay = True"
| "startsAt (c # cs) [] = False"
| "startsAt (c # cs) (h # hs) = (c = h \<and> startsAt cs hs)"

fun str_includes :: "string \<Rightarrow> string \<Rightarrow> bool" where
  "str_includes [] needle = (needle = [])"
| "str_includes (h # hs) needle = (startsAt needle (h # hs) \<or> str_includes hs needle)"

text \<open>\<^verbatim>\<open>s.substring(0, n)\<close>: the first \<open>n\<close> code units, the whole string when it is shorter.\<close>

definition substring0 :: "string \<Rightarrow> nat \<Rightarrow> string" where
  "substring0 s n = take n s"

section \<open>Host policy (server.js)\<close>

text \<open>\<^verbatim>\<open>this.aiPlatforms\<close> of the constructor, server.js lines 39 to 45.\<close>

definition aiPlatforms :: "string list" where
  "aiPlatforms =
     [''chat.openai.com'', ''claude.ai'', ''bard.google.com'', ''copilot.microsoft.com'',
      ''gemini.google.com'']"

text \<open>
  \<^verbatim>\<open>this.aiPlatforms.some(platform => host.includes(platform))\<close>, the test of both
  \<^verbatim>\<open>setupRoutes\<close> (line 92, on the Host header) and \<^verbatim>\<open>handleConnect\<close> (line 231, on the
  CONNECT target's hostname).
\<close>

definition isAIPlatform :: "string \<Rightarrow> bool" where
  "isAIPlatform host = list_ex (\<lambda>platform. str_includes host platform) aiPlatforms"

text \<open>
  The configured variants (server.js line 458, part_001 line 89) walk the keys of
  \<^verbatim>\<open>config.aiPlatforms\<close>, an object from platform name to its enabled flag:
  \<^verbatim>\<open>host && host.includes(platform) && this.config.aiPlatforms[platform]\<close>.
  The Host header may be absent (\<open>None\<close>); the empty string is falsy as well.
\<close>

definition isAIPlatform_config :: "(string \<times> bool) list \<Rightarrow> string option \<Rightarrow> bool" where
  "isAIPlatform_config platforms host =
     list_ex (\<lambda>(platform, enabled).
        (case host of None \<Rightarrow> False
         | Some h \<Rightarrow> h \<noteq> [] \<and> str_includes h platform \<and> enabled)) platforms"

text \<open>The default \<^verbatim>\<open>aiPlatforms\<close> object of \<^verbatim>\<open>loadConfig\<close>.\<close>

definition defaultPlatforms :: "(string \<times> bool) list" where
  "defaultPlatforms =
     [(''chat.openai.com'', True), (''claude.ai'', True), (''bard.google.com'', True),
      (''copilot.microsoft.com'', True)]"

text \<open>
  The rule the specification asks for, in its own words: a hostname matches a platform
  when it is the platform's name or ends with a dot followed by that name.
\<close>

definition exactOrSuffix_spec :: "string \<Rightarrow> string \<Rightarrow> bool" where
  "exactOrSuffix_spec host platform = (host = platform \<or> suffix (CHR ''.'' # platform) host)"

section \<open>JSON values as the JavaScript runtime sees them\<close>

text \<open>
  The result of \<^verbatim>\<open>JSON.parse\<close>. An object is the list of its properties, each name once
  (the parser keeps the last of duplicate names); a number is a rational, of which the
  code observes only comparisons. \<open>None\<close> of type \<open>json option\<close> is \<^verbatim>\<open>undefined\<close>.
\<close>

datatype json =
    JNull
  | JBool bool
  | JNum rat
  | JStr string
  | JArr "json list"
  | JObj "(string \<times> json) list"

datatype exn = TypeError | SyntaxError | FetchError

text \<open>ToBoolean, as \<^verbatim>\<open>if (v)\<close>, \<^verbatim>\<open>v && w\<close> and \<^verbatim>\<open>v || w\<close> apply it.\<close>

fun truthy :: "json \<Rightarrow> bool" where
  "truthy JNull = False"
| "truthy (JBool b) = b"
| "truthy (JNum n) = (n \<noteq> 0)"
| "truthy (JStr s) = (s \<noteq> [])"
| "truthy (JArr xs) = True"
| "truthy (JObj kvs) = True"

fun truthyOpt :: "json option \<Rightarrow> bool" where
  "truthyOpt None = False"
| "truthyOpt (Some v) = truthy v"

fun nullish :: "json option \<Rightarrow> bool" where
  "nullish None = True"
| "nullish (Some JNull) = True"
| "nullish (Some v) = False"

text \<open>
  \<^verbatim>\<open>v.name\<close> for the property names the code reads by name (\<^verbatim>\<open>candidates\<close>, \<^verbatim>\<open>content\<close>,
  \<^verbatim>\<open>parts\<close>, \<^verbatim>\<open>text\<close>, \<^verbatim>\<open>messages\<close>, \<^verbatim>\<open>prompt\<close>, \<^verbatim>\<open>input\<close>, \<^verbatim>\<open>query\<close>): a TypeError on
  \<^verbatim>\<open>null\<close> and \<^verbatim>\<open>undefined\<close>, the property of an object, \<^verbatim>\<open>undefined\<close> on every other
  value (strings, numbers, booleans and arrays have no property of these names).
\<close>

fun getProp :: "json option \<Rightarrow> string \<Rightarrow> exn + json option" where
  "getProp None k = Inl TypeError"
| "getProp (Some JNull) k = Inl TypeError"
| "getProp (Some (JObj kvs)) k = Inr (map_of kvs k)"
| "getProp (Some v) k = Inr None"

text \<open>\<^verbatim>\<open>v[0]\<close>: the first element of an array, the first code unit of a string, the property \<^verbatim>\<open>"0"\<close> of an object.\<close>

fun index0 :: "json option \<Rightarrow> exn + json option" where
  "index0 None = Inl TypeError"
| "index0 (Some JNull) = Inl TypeError"
| "index0 (Some (JArr xs)) = Inr (case xs of [] \<Rightarrow> None | x # _ \<Rightarrow> Some x)"
| "index0 (Some (JStr s)) = Inr (case s of [] \<Rightarrow> None | c # _ \<Rightarrow> Some (JStr [c]))"
| "index0 (Some (JObj kvs)) = Inr (map_of kvs ''0'')"
| "index0 (Some v) = Inr None"

text \<open>Sequencing of steps that may throw: the first exception ends the evaluation.\<close>

fun bindE :: "exn + 'a \<Rightarrow> ('a \<Rightarrow> exn + 'b) \<Rightarrow> exn + 'b" where
  "bindE (Inl e) f = Inl e"
| "bindE (Inr x) f = f x"

text \<open>
  White space and line terminators of \<^verbatim>\<open>String.prototype.trim\<close> and of the class \<^verbatim>\<open>\s\<close>,
  among the code units a \<^typ>\<open>char\<close> holds: tab, line feed, vertical tab, form feed,
  carriage return, space, no-break space.
\<close>

definition isSpace :: "char \<Rightarrow> bool" where
  "isSpace c = (c \<in> set [CHR 0x09, CHR 0x0A, CHR 0x0B, CHR 0x0C, CHR 0x0D, CHR 0x20, CHR 0xA0])"

definition trim :: "string \<Rightarrow> string" where
  "trim s = rev (dropWhile isSpace (rev (dropWhile isSpace s)))"

section \<open>PIIDetector (pii-detector.js)\<close>

record PIIDetector =
  apiKey :: string
  apiUrl :: string

definition newPIIDetector :: "string \<Rightarrow> PIIDetector" where
  "newPIIDetector geminiApiKey =
     \<lparr> apiKey = geminiApiKey,
       apiUrl = ''https://generativelanguage.googleapis.com/v1beta/models/gemini-pro:generateContent'' \<rparr>"

text \<open>The template literal of lines 9 to 23, with the text to analyse spliced in.\<close>

definition buildPrompt :: "string \<Rightarrow> string" where
  "buildPrompt txt =
     ''Analyze the following text for personally identifiable information (PII) including but not limited to:'' @ [CHR 0x0A] @
     ''- Names, email addresses, phone numbers'' @ [CHR 0x0A] @
     ''- Social security numbers, credit card numbers'' @ [CHR 0x0A] @
     ''- Addresses, dates of birth'' @ [CHR 0x0A] @
     ''- IP addresses, user IDs, passwords'' @ [CHR 0x0A] @
     ''- Medical information, financial data'' @ [CHR 0x0A] @
     ''- Any other sensitive personal information'' @ [CHR 0x0A] @
     [CHR 0x0A] @
     ''Text to analyze: '' @ [CHR 0x22] @ txt @ [CHR 0x22] @ [CHR 0x0A] @
     [CHR 0x0A] @
     ''Respond with only:'' @ [CHR 0x0A] @
     ''- '' @ [CHR 0x22] @ ''PII_DETECTED'' @ [CHR 0x22] @ '' if any PII is found'' @ [CHR 0x0A] @
     ''- '' @ [CHR 0x22] @ ''NO_PII'' @ [CHR 0x22] @ '' if no PII is found'' @ [CHR 0x0A] @
     [CHR 0x0A] @
     ''Do not include any other explanation.''"

text \<open>
  The second argument of \<^verbatim>\<open>fetch\<close>, lines 26 to 34, as \<^verbatim>\<open>fetch\<close> reads it: the method, the
  headers, the value given to \<^verbatim>\<open>JSON.stringify\<close> for the body, and the abort signal with
  its timeout in milliseconds. The object literal of \<^verbatim>\<open>detectPII\<close> has the keys \<^verbatim>\<open>method\<close>,
  \<^verbatim>\<open>headers\<close> and \<^verbatim>\<open>body\<close>; it has no \<^verbatim>\<open>signal\<close>, and no timer is started anywhere in the
  class.
\<close>

record fetch_init =
  initMethod :: string
  initHeaders :: "(string \<times> string) list"
  initBody :: json
  initSignal :: "nat option"

definition detectRequest :: "string \<Rightarrow> fetch_init" where
  "detectRequest txt =
     \<lparr> initMethod = ''POST'',
       initHeaders = [(''Content-Type'', ''application/json'')],
       initBody = JObj [(''contents'', JArr [JObj [(''parts'', JArr [JObj [(''text'', JStr (buildPrompt txt))]])]])],
       initSignal = None \<rparr>"

text \<open>
  What \<^verbatim>\<open>await fetch(url, init)\<close> gives: the promise rejects (no connection, a reset, an
  abort), it resolves to a response with a status and a body, or it never settles (the
  server accepts the request and does not answer). Likewise \<^verbatim>\<open>await response.json()\<close>
  yields the parsed body, rejects (the body is not JSON, or reading it fails), or never
  settles. The environment is a function from the request, its URL and its second
  argument, to this outcome.
\<close>

datatype body_result = Body json | BodyRejected | BodyPending

datatype fetch_result = Rejected | Response nat body_result | NeverSettles

type_synonym fetch_env = "string \<Rightarrow> fetch_init \<Rightarrow> fetch_result"

text \<open>\<^verbatim>\<open>response.ok\<close>: the status is in the range 200 to 299.\<close>

definition response_ok :: "nat \<Rightarrow> bool" where
  "response_ok status = (200 \<le> status \<and> status \<le> 299)"

text \<open>
  Lines 43 and 46:
  \<^verbatim>\<open>data.candidates[0]?.content?.parts[0]?.text?.trim() === 'PII_DETECTED'\<close>.
  An optional link \<^verbatim>\<open>?.\<close> on \<^verbatim>\<open>null\<close> or \<^verbatim>\<open>undefined\<close> makes the rest of the chain
  \<^verbatim>\<open>undefined\<close>, which is not the token; the plain links \<^verbatim>\<open>.candidates\<close>, \<^verbatim>\<open>[0]\<close> throw
  there. \<^verbatim>\<open>.trim()\<close> on a value that is not a string calls something that is not a
  function, a TypeError.
\<close>

definition readVerdict :: "json \<Rightarrow> exn + bool" where
  "readVerdict data =
     bindE (getProp (Some data) ''candidates'') (\<lambda>candidates.
     bindE (index0 candidates) (\<lambda>candidate.
       if nullish candidate then Inr False
       else bindE (getProp candidate ''content'') (\<lambda>content.
         if nullish content then Inr False
         else bindE (getProp content ''parts'') (\<lambda>parts.
           bindE (index0 parts) (\<lambda>part.
             if nullish part then Inr False
             else bindE (getProp part ''text'') (\<lambda>t.
               if nullish t then Inr False
               else (case t of
                       Some (JStr s) \<Rightarrow> Inr (trim s = ''PII_DETECTED'')
                     | _ \<Rightarrow> Inl TypeError)))))))"

text \<open>
  The body of the \<^verbatim>\<open>try\<close> block of \<^verbatim>\<open>detectPII\<close>, lines 9 to 46. The result is \<open>None\<close> when
  an \<^verbatim>\<open>await\<close> never resumes: the function then neither returns nor throws.
\<close>

definition detectPII_try :: "PIIDetector \<Rightarrow> fetch_env \<Rightarrow> string \<Rightarrow> (exn + bool) option" where
  "detectPII_try d fetch txt =
     (case fetch (apiUrl d @ ''?key='' @ apiKey d) (detectRequest txt) of
        NeverSettles \<Rightarrow> None
      | Rejected \<Rightarrow> Some (Inl FetchError)
      | Response status body \<Rightarrow>
          if \<not> response_ok status then Some (Inr False)
          else (case body of
                  BodyPending \<Rightarrow> None
                | BodyRejected \<Rightarrow> Some (Inl SyntaxError)
                | Body data \<Rightarrow> Some (readVerdict data)))"

text \<open>\<^verbatim>\<open>detectPII\<close>: the \<^verbatim>\<open>catch\<close> of lines 47 to 50 turns every exception into \<^verbatim>\<open>false\<close>.\<close>

definition detectPII :: "PIIDetector \<Rightarrow> fetch_env \<Rightarrow> string \<Rightarrow> (exn + bool) option" where
  "detectPII d fetch txt =
     (case detectPII_try d fetch txt of
        None \<Rightarrow> None
      | Some (Inl e) \<Rightarrow> Some (Inr False)
      | Some (Inr b) \<Rightarrow> Some (Inr b))"

subsection \<open>The regular expressions of \<^verbatim>\<open>quickPIICheck\<close>\<close>

definition isDigit :: "char \<Rightarrow> bool" where
  "isDigit c = (c \<in> set ''0123456789'')"

definition isUpper :: "char \<Rightarrow> bool" where
  "isUpper c = (c \<in> set ''ABCDEFGHIJKLMNOPQRSTUVWXYZ'')"

definition isLower :: "char \<Rightarrow> bool" where
  "isLower c = (c \<in> set ''abcdefghijklmnopqrstuvwxyz'')"

text \<open>\<^verbatim>\<open>\w\<close>, the characters between which \<^verbatim>\<open>\b\<close> sees no boundary.\<close>

definition isWordChar :: "char \<Rightarrow> bool" where
  "isWordChar c = (isUpper c \<or> isLower c \<or> isDigit c \<or> c = CHR ''_'')"

text \<open>
  Each of the five patterns is a sequence of atoms: the assertion \<^verbatim>\<open>\b\<close>, or a character
  class repeated between \<open>lo\<close> and \<open>hi\<close> times (\<open>None\<close>: no upper bound). A single character
  is a class repeated once, \<^verbatim>\<open>c?\<close> is zero to one, \<^verbatim>\<open>c+\<close> is one and more.
\<close>

datatype atom = WordB | Rep nat "nat option" "char \<Rightarrow> bool"

fun isWordOpt :: "char option \<Rightarrow> bool" where
  "isWordOpt None = False"
| "isWordOpt (Some c) = isWordChar c"

fun firstChar :: "string \<Rightarrow> char option" where
  "firstChar [] = None"
| "firstChar (c # cs) = Some c"

text \<open>
  \<open>matchAt p prev rest\<close>: the pattern \<open>p\<close> matches some prefix of \<open>rest\<close>, where \<open>prev\<close> is
  the character before \<open>rest\<close> in the whole text (\<open>None\<close> at its start). \<^verbatim>\<open>test\<close> asks
  whether a match exists, so every number of repetitions within the bounds is tried.
\<close>

fun matchAt :: "atom list \<Rightarrow> char option \<Rightarrow> string \<Rightarrow> bool" where
  "matchAt [] prev rest = True"
| "matchAt (WordB # ats) prev rest =
     (isWordOpt prev \<noteq> isWordOpt (firstChar rest) \<and> matchAt ats prev rest)"
| "matchAt (Rep lo hi cls # ats) prev rest =
     (let run = length (takeWhile cls rest);
          top = (case hi of None \<Rightarrow> run | Some h \<Rightarrow> min h run)
      in list_ex (\<lambda>k. matchAt ats (if k = 0 then prev else Some (rest ! (k - 1))) (drop k rest))
           [lo ..< Suc top])"

fun searchFrom :: "atom list \<Rightarrow> char option \<Rightarrow> string \<Rightarrow> bool" where
  "searchFrom p prev [] = matchAt p prev []"
| "searchFrom p prev (c # cs) = (matchAt p prev (c # cs) \<or> searchFrom p (Some c) cs)"

text \<open>\<^verbatim>\<open>pattern.test(text)\<close>: the pattern matches at some position of the text.\<close>

definition rx_test :: "atom list \<Rightarrow> string \<Rightarrow> bool" where
  "rx_test p s = searchFrom p None s"

definition lit :: "char \<Rightarrow> atom" where
  "lit c = Rep 1 (Some 1) (\<lambda>x. x = c)"

definition digits :: "nat \<Rightarrow> atom" where
  "digits n = Rep n (Some n) isDigit"

text \<open>\<^verbatim>\<open>/\b\d{3}-\d{2}-\d{4}\b/\<close>\<close>

definition rxSSN :: "atom list" where
  "rxSSN = [WordB, digits 3, lit CHR ''-'', digits 2, lit CHR ''-'', digits 4, WordB]"

text \<open>\<^verbatim>\<open>/\b\d{4}[-\s]?\d{4}[-\s]?\d{4}[-\s]?\d{4}\b/\<close>\<close>

definition rxCard :: "atom list" where
  "rxCard =
     (let sep = Rep 0 (Some 1) (\<lambda>c. c = CHR ''-'' \<or> isSpace c)
      in [WordB, digits 4, sep, digits 4, sep, digits 4, sep, digits 4, WordB])"

text \<open>\<^verbatim>\<open>/\b[A-Za-z0-9._%+-]+@[A-Za-z0-9.-]+\.[A-Z|a-z]{2,}\b/\<close>\<close>

definition rxEmail :: "atom list" where
  "rxEmail =
     [WordB,
      Rep 1 None (\<lambda>c. isUpper c \<or> isLower c \<or> isDigit c \<or> c \<in> set ''._%+-''),
      lit CHR ''@'',
      Rep 1 None (\<lambda>c. isUpper c \<or> isLower c \<or> isDigit c \<or> c \<in> set ''.-''),
      lit CHR ''.'',
      Rep 2 None (\<lambda>c. isUpper c \<or> c = CHR ''|'' \<or> isLower c),
      WordB]"

text \<open>\<^verbatim>\<open>/\b\d{3}[-.]?\d{3}[-.]?\d{4}\b/\<close>\<close>

definition rxPhone :: "atom list" where
  "rxPhone =
     (let sep = Rep 0 (Some 1) (\<lambda>c. c \<in> set ''-.'')
      in [WordB, digits 3, sep, digits 3, sep, digits 4, WordB])"

text \<open>\<^verbatim>\<open>/\b\d{1,3}\.\d{1,3}\.\d{1,3}\.\d{1,3}\b/\<close>\<close>

definition rxIP :: "atom list" where
  "rxIP =
     (let octet = Rep 1 (Some 3) isDigit
      in [WordB, octet, lit CHR ''.'', octet, lit CHR ''.'', octet, lit CHR ''.'', octet, WordB])"

definition piiPatterns :: "atom list list" where
  "piiPatterns = [rxSSN, rxCard, rxEmail, rxPhone, rxIP]"

text \<open>\<^verbatim>\<open>piiPatterns.some(pattern => pattern.test(text))\<close>\<close>

definition quickPIICheck :: "string \<Rightarrow> bool" where
  "quickPIICheck txt = list_ex (\<lambda>pattern. rx_test pattern txt) piiPatterns"

section \<open>The runtime the handlers run in\<close>

text \<open>
  What the handlers take from outside the repository: \<^verbatim>\<open>JSON.parse\<close> (\<open>None\<close> when it throws
  a SyntaxError), \<^verbatim>\<open>fetch\<close>, the clock read by \<^verbatim>\<open>new Date().toISOString()\<close>, and two
  coercions of the language that only values of unusual shape reach: \<open>gtTen v\<close> is
  \<^verbatim>\<open>v > 10\<close> for a string, array or object \<open>v\<close> (ToPrimitive may throw), and
  \<open>keyBefore v\<close> is the property key that \<^verbatim>\<open>v - 1\<close> denotes.
\<close>

record runtime =
  JSON_parse :: "string \<Rightarrow> json option"
  fetch :: fetch_env
  nowISO :: string
  gtTen :: "json \<Rightarrow> exn + bool"
  keyBefore :: "json option \<Rightarrow> string"

text \<open>\<^verbatim>\<open>v?.name\<close>: \<^verbatim>\<open>undefined\<close> on \<^verbatim>\<open>null\<close> and \<^verbatim>\<open>undefined\<close>, the property read otherwise.\<close>

fun optProp :: "json option \<Rightarrow> string \<Rightarrow> json option" where
  "optProp (Some (JObj kvs)) k = map_of kvs k"
| "optProp v k = None"

text \<open>\<^verbatim>\<open>v || d\<close>\<close>

fun orElse :: "json option \<Rightarrow> json \<Rightarrow> json" where
  "orElse None d = d"
| "orElse (Some v) d = (if truthy v then v else d)"

text \<open>\<^verbatim>\<open>if (v) return v;\<close> followed by the rest of the function.\<close>

fun returnIfTruthy :: "json option \<Rightarrow> (exn + json) \<Rightarrow> exn + json" where
  "returnIfTruthy None rest = rest"
| "returnIfTruthy (Some v) rest = (if truthy v then Inr v else rest)"

text \<open>\<^verbatim>\<open>xs[xs.length - 1]\<close> on an array: \<^verbatim>\<open>undefined\<close> (index \<open>-1\<close>) when it is empty.\<close>

definition lastElem :: "json list \<Rightarrow> json option" where
  "lastElem xs = (if xs = [] then None else Some (last xs))"

text \<open>
  \<^verbatim>\<open>v[v.length - 1]\<close> on any truthy value, as part_001 evaluates it without asking whether
  \<open>v\<close> is an array: the last code unit of a string; \<^verbatim>\<open>undefined\<close> on a number or boolean
  (their \<^verbatim>\<open>length\<close> is \<^verbatim>\<open>undefined\<close>, the index NaN); on an object, the property whose key
  is its \<^verbatim>\<open>length\<close> property minus one.
\<close>

fun lastOf :: "runtime \<Rightarrow> json \<Rightarrow> exn + json option" where
  "lastOf rt JNull = Inl TypeError"
| "lastOf rt (JArr xs) = Inr (lastElem xs)"
| "lastOf rt (JStr s) = Inr (if s = [] then None else Some (JStr [last s]))"
| "lastOf rt (JObj kvs) = Inr (map_of kvs (keyBefore rt (map_of kvs ''length'')))"
| "lastOf rt v = Inr None"

text \<open>\<^verbatim>\<open>v.length\<close> on a value that is not \<^verbatim>\<open>undefined\<close>.\<close>

fun lengthOf :: "json \<Rightarrow> exn + json option" where
  "lengthOf JNull = Inl TypeError"
| "lengthOf (JStr s) = Inr (Some (JNum (of_nat (length s))))"
| "lengthOf (JArr xs) = Inr (Some (JNum (of_nat (length xs))))"
| "lengthOf (JObj kvs) = Inr (map_of kvs ''length'')"
| "lengthOf v = Inr None"

text \<open>
  \<^verbatim>\<open>n > 10\<close>: \<^verbatim>\<open>undefined\<close> is NaN and compares false, \<^verbatim>\<open>null\<close> is 0, a boolean is 0 or 1.
\<close>

fun gt10 :: "runtime \<Rightarrow> json option \<Rightarrow> exn + bool" where
  "gt10 rt None = Inr False"
| "gt10 rt (Some JNull) = Inr False"
| "gt10 rt (Some (JBool b)) = Inr False"
| "gt10 rt (Some (JNum n)) = Inr (n > 10)"
| "gt10 rt (Some v) = gtTen rt v"

section \<open>Prompt extraction\<close>

text \<open>
  \<^verbatim>\<open>extractPrompt\<close> of server.js, lines 208 to 226. The \<^verbatim>\<open>try\<close> block parses the body and
  reads \<^verbatim>\<open>messages\<close>, \<^verbatim>\<open>prompt\<close>, \<^verbatim>\<open>input\<close>, \<^verbatim>\<open>text\<close>; falling out of it returns \<^verbatim>\<open>''\<close>; the
  \<^verbatim>\<open>catch\<close> returns \<^verbatim>\<open>body.substring(0, 1000)\<close>. The result is a JavaScript value: a
  field is returned as it is, whatever its type.
\<close>

definition extractPrompt_try :: "json \<Rightarrow> exn + json" where
  "extractPrompt_try data =
     bindE (getProp (Some data) ''messages'') (\<lambda>messages.
       case messages of
         Some (JArr ms) \<Rightarrow> Inr (orElse (optProp (lastElem ms) ''content'') (JStr []))
       | _ \<Rightarrow>
         bindE (getProp (Some data) ''prompt'') (\<lambda>prompt. returnIfTruthy prompt (
         bindE (getProp (Some data) ''input'') (\<lambda>input. returnIfTruthy input (
         bindE (getProp (Some data) ''text'') (\<lambda>txt. returnIfTruthy txt (
         Inr (JStr []))))))))"

definition extractPrompt :: "runtime \<Rightarrow> string \<Rightarrow> json" where
  "extractPrompt rt body =
     (case JSON_parse rt body of
        None \<Rightarrow> JStr (substring0 body 1000)
      | Some data \<Rightarrow>
          (case extractPrompt_try data of
             Inl e \<Rightarrow> JStr (substring0 body 1000)
           | Inr v \<Rightarrow> v))"

text \<open>
  \<^verbatim>\<open>extractPrompt\<close> of the second implementation in server.js, lines 535 to 561: the same,
  with a fifth field \<^verbatim>\<open>query\<close>.
\<close>

definition extractPrompt_s2_try :: "json \<Rightarrow> exn + json" where
  "extractPrompt_s2_try data =
     bindE (getProp (Some data) ''messages'') (\<lambda>messages.
       case messages of
         Some (JArr ms) \<Rightarrow> Inr (orElse (optProp (lastElem ms) ''content'') (JStr []))
       | _ \<Rightarrow>
         bindE (getProp (Some data) ''prompt'') (\<lambda>prompt. returnIfTruthy prompt (
         bindE (getProp (Some data) ''input'') (\<lambda>input. returnIfTruthy input (
         bindE (getProp (Some data) ''text'') (\<lambda>txt. returnIfTruthy txt (
         bindE (getProp (Some data) ''query'') (\<lambda>query. returnIfTruthy query (
         Inr (JStr []))))))))))"

definition extractPrompt_s2 :: "runtime \<Rightarrow> string \<Rightarrow> json" where
  "extractPrompt_s2 rt body =
     (case JSON_parse rt body of
        None \<Rightarrow> JStr (substring0 body 1000)
      | Some data \<Rightarrow>
          (case extractPrompt_s2_try data of
             Inl e \<Rightarrow> JStr (substring0 body 1000)
           | Inr v \<Rightarrow> v))"

text \<open>
  \<^verbatim>\<open>extractPrompt\<close> of part_001, lines 174 to 199: \<^verbatim>\<open>if (data.messages)\<close> with no array
  test, then \<^verbatim>\<open>prompt\<close> and \<^verbatim>\<open>input\<close>; the \<^verbatim>\<open>catch\<close> returns \<^verbatim>\<open>''\<close>.
\<close>

definition extractPrompt_p1_try :: "runtime \<Rightarrow> json \<Rightarrow> exn + json" where
  "extractPrompt_p1_try rt data =
     bindE (getProp (Some data) ''messages'') (\<lambda>messages.
       case messages of
         None \<Rightarrow>
           bindE (getProp (Some data) ''prompt'') (\<lambda>prompt. returnIfTruthy prompt (
           bindE (getProp (Some data) ''input'') (\<lambda>input. returnIfTruthy input (
           Inr (JStr [])))))
       | Some m \<Rightarrow>
           if truthy m
           then bindE (lastOf rt m) (\<lambda>lastMessage.
                  Inr (orElse (optProp lastMessage ''content'') (JStr [])))
           else
             bindE (getProp (Some data) ''prompt'') (\<lambda>prompt. returnIfTruthy prompt (
             bindE (getProp (Some data) ''input'') (\<lambda>input. returnIfTruthy input (
             Inr (JStr []))))))"

definition extractPrompt_p1 :: "runtime \<Rightarrow> string \<Rightarrow> json" where
  "extractPrompt_p1 rt body =
     (case JSON_parse rt body of
        None \<Rightarrow> JStr []
      | Some data \<Rightarrow>
          (case extractPrompt_p1_try rt data of
             Inl e \<Rightarrow> JStr []
           | Inr v \<Rightarrow> v))"

section \<open>The inspection handlers\<close>

text \<open>
  The counters of \<^verbatim>\<open>this.stats\<close>. In server.js the object has a fourth property
  \<^verbatim>\<open>startTime\<close>, which no handler writes: the handlers are defined on every extension of
  the record.
\<close>

record stats =
  requestsBlocked :: nat
  requestsAllowed :: nat
  piiDetections :: nat

record request =
  reqMethod :: string
  originalUrl :: string
  hostHeader :: "string option"
  body :: string

text \<open>
  What a handler does to the outside, in order: the classification request sent by
  \<^verbatim>\<open>detectPII\<close> (URL and second argument), a JSON or text response to the client, the request
  forwarded upstream with the buffered body (\<^verbatim>\<open>forwardRequest\<close>,
  \<^verbatim>\<open>proxyRequestWithBody\<close>), the request proxied as a stream (\<^verbatim>\<open>proxyRegularWebsite\<close>,
  \<^verbatim>\<open>proxyRequest\<close>), \<^verbatim>\<open>next()\<close>, and an exception that no handler catches.
\<close>

datatype action =
    RemoteCall string fetch_init
  | Respond nat "(string \<times> json) list"
  | Send nat string
  | ForwardRequest string string
  | ProxyRequest string
  | Next
  | Unhandled exn

fun isRemoteCall :: "action \<Rightarrow> bool" where
  "isRemoteCall (RemoteCall u p) = True"
| "isRemoteCall a = False"

text \<open>The request \<^verbatim>\<open>detectPII\<close> sends for a text.\<close>

definition remoteCall :: "PIIDetector \<Rightarrow> string \<Rightarrow> action" where
  "remoteCall d txt = RemoteCall (apiUrl d @ ''?key='' @ apiKey d) (detectRequest txt)"

text \<open>\<^verbatim>\<open>isChatEndpoint\<close>, server.js lines 197 to 206 and 478 to 487.\<close>

definition chatEndpoints :: "string list" where
  "chatEndpoints =
     [''/backend-api/conversation'', ''/api/organizations/'', ''/v1/chat/completions'',
      ''/api/generate'']"

definition isChatEndpoint :: "string \<Rightarrow> bool" where
  "isChatEndpoint url = list_ex (\<lambda>endpoint. str_includes url endpoint) chatEndpoints"

text \<open>\<^verbatim>\<open>isChatEndpoint\<close> of part_001, lines 110 to 118: three endpoints.\<close>

definition chatEndpoints_p1 :: "string list" where
  "chatEndpoints_p1 =
     [''/backend-api/conversation'', ''/api/organizations/'', ''/v1/chat/completions'']"

definition isChatEndpoint_p1 :: "string \<Rightarrow> bool" where
  "isChatEndpoint_p1 url = list_ex (\<lambda>endpoint. str_includes url endpoint) chatEndpoints_p1"

text \<open>\<^verbatim>\<open>prompt && prompt.length > 10\<close>\<close>

definition longPrompt :: "runtime \<Rightarrow> json \<Rightarrow> exn + bool" where
  "longPrompt rt prompt =
     (if \<not> truthy prompt then Inr False
      else bindE (lengthOf prompt) (gt10 rt))"

text \<open>The object of the 403 response, server.js lines 128 to 133.\<close>

definition blockBody :: "(string \<times> json) list" where
  "blockBody =
     [(''error'', JStr ''PII Detected''),
      (''message'', JStr ''Your request contains personally identifiable information and has been blocked.''),
      (''suggestion'', JStr ''Please remove personal information like names, emails, phone numbers, or addresses.''),
      (''blocked'', JBool True)]"

text \<open>
  The \<^verbatim>\<open>end\<close> listener of \<^verbatim>\<open>handleAIPlatform\<close>, server.js lines 113 to 147, run on the body
  once it has been received. The \<^verbatim>\<open>try\<close> block extracts the prompt, tests
  \<^verbatim>\<open>prompt && prompt.length > 10\<close>, builds the log line with \<^verbatim>\<open>prompt.substring(0, 50)\<close>
  (a TypeError unless the prompt is a string) and awaits \<^verbatim>\<open>detectPII\<close>; the \<^verbatim>\<open>catch\<close> of
  lines 143 to 146 forwards the request and touches no counter. When \<^verbatim>\<open>detectPII\<close> never
  returns, the listener stays at its \<^verbatim>\<open>await\<close> and does nothing after the remote call.
  The proxy calls themselves are taken not to throw.
\<close>

definition handleAIPlatform_end ::
  "runtime \<Rightarrow> PIIDetector \<Rightarrow> 'a stats_scheme \<Rightarrow> string \<Rightarrow> string \<Rightarrow> 'a stats_scheme \<times> action list"
where
  "handleAIPlatform_end rt d st host bdy =
     (let prompt = extractPrompt rt bdy;
          allow = (st\<lparr>requestsAllowed := requestsAllowed st + 1\<rparr>, [ForwardRequest host bdy]);
          caught = (st, [ForwardRequest host bdy])
      in case longPrompt rt prompt of
           Inl e \<Rightarrow> caught
         | Inr False \<Rightarrow> allow
         | Inr True \<Rightarrow>
             (case prompt of
                JStr s \<Rightarrow>
                  (case detectPII d (fetch rt) s of
                     None \<Rightarrow> (st, [remoteCall d s])
                   | Some (Inl e) \<Rightarrow> (st, [remoteCall d s, ForwardRequest host bdy])
                   | Some (Inr hasPII) \<Rightarrow>
                       if hasPII
                       then (st\<lparr>requestsBlocked := requestsBlocked st + 1,
                                piiDetections := piiDetections st + 1\<rparr>,
                             [remoteCall d s, Respond 403 blockBody])
                       else (st\<lparr>requestsAllowed := requestsAllowed st + 1\<rparr>,
                             [remoteCall d s, ForwardRequest host bdy]))
              | _ \<Rightarrow> caught))"

text \<open>\<^verbatim>\<open>handleAIPlatform\<close>, server.js lines 104 to 152.\<close>

definition handleAIPlatform ::
  "runtime \<Rightarrow> PIIDetector \<Rightarrow> 'a stats_scheme \<Rightarrow> request \<Rightarrow> string \<Rightarrow> 'a stats_scheme \<times> action list"
where
  "handleAIPlatform rt d st req host =
     (if reqMethod req = ''POST'' \<and> isChatEndpoint (originalUrl req)
      then handleAIPlatform_end rt d st host (body req)
      else (st, [ProxyRequest host]))"

text \<open>The catch-all route of \<^verbatim>\<open>setupRoutes\<close>, server.js lines 84 to 101.\<close>

definition setupRoutes_all ::
  "runtime \<Rightarrow> PIIDetector \<Rightarrow> 'a stats_scheme \<Rightarrow> request \<Rightarrow> 'a stats_scheme \<times> action list"
where
  "setupRoutes_all rt d st req =
     (case hostHeader req of
        None \<Rightarrow> (st, [Send 400 ''Bad Request''])
      | Some host \<Rightarrow>
          if host = [] then (st, [Send 400 ''Bad Request''])
          else if isAIPlatform host then handleAIPlatform rt d st req host
          else (st, [ProxyRequest host]))"

text \<open>
  The second implementation in server.js: the \<^verbatim>\<open>end\<close> listener of \<^verbatim>\<open>handleChatRequest\<close>,
  lines 496 to 532. Its 403 object has a fifth key \<^verbatim>\<open>timestamp\<close>, and its \<^verbatim>\<open>catch\<close>
  increments \<^verbatim>\<open>requestsAllowed\<close> before it forwards.
\<close>

definition blockBody_s2 :: "runtime \<Rightarrow> (string \<times> json) list" where
  "blockBody_s2 rt = blockBody @ [(''timestamp'', JStr (nowISO rt))]"

definition handleChatRequest_s2 ::
  "runtime \<Rightarrow> PIIDetector \<Rightarrow> 'a stats_scheme \<Rightarrow> string \<Rightarrow> string \<Rightarrow> 'a stats_scheme \<times> action list"
where
  "handleChatRequest_s2 rt d st host bdy =
     (let prompt = extractPrompt_s2 rt bdy;
          allow = (st\<lparr>requestsAllowed := requestsAllowed st + 1\<rparr>, [ForwardRequest host bdy]);
          caught = (st\<lparr>requestsAllowed := requestsAllowed st + 1\<rparr>, [ForwardRequest host bdy])
      in case longPrompt rt prompt of
           Inl e \<Rightarrow> caught
         | Inr False \<Rightarrow> allow
         | Inr True \<Rightarrow>
             (case prompt of
                JStr s \<Rightarrow>
                  (case detectPII d (fetch rt) s of
                     None \<Rightarrow> (st, [remoteCall d s])
                   | Some (Inl e) \<Rightarrow> (st\<lparr>requestsAllowed := requestsAllowed st + 1\<rparr>,
                               [remoteCall d s, ForwardRequest host bdy])
                   | Some (Inr hasPII) \<Rightarrow>
                       if hasPII
                       then (st\<lparr>requestsBlocked := requestsBlocked st + 1,
                                piiDetections := piiDetections st + 1\<rparr>,
                             [remoteCall d s, Respond 403 (blockBody_s2 rt)])
                       else (st\<lparr>requestsAllowed := requestsAllowed st + 1\<rparr>,
                             [remoteCall d s, ForwardRequest host bdy]))
              | _ \<Rightarrow> caught))"

text \<open>\<^verbatim>\<open>createProxyHandler\<close> of the second implementation, server.js lines 453 to 476.\<close>

definition createProxyHandler_s2 ::
  "(string \<times> bool) list \<Rightarrow> runtime \<Rightarrow> PIIDetector \<Rightarrow> 'a stats_scheme \<Rightarrow> request \<Rightarrow>
     'a stats_scheme \<times> action list"
where
  "createProxyHandler_s2 platforms rt d st req =
     (if \<not> isAIPlatform_config platforms (hostHeader req)
      then (st, [Respond 404 [(''error'', JStr ''Not an AI platform'')]])
      else case hostHeader req of
             None \<Rightarrow> (st, [Respond 404 [(''error'', JStr ''Not an AI platform'')]])
           | Some host \<Rightarrow>
               if reqMethod req = ''POST'' \<and> isChatEndpoint (originalUrl req)
               then handleChatRequest_s2 rt d st host (body req)
               else (st, [ProxyRequest host]))"

text \<open>
  part_001: the \<^verbatim>\<open>end\<close> listener of \<^verbatim>\<open>handleChatRequest\<close>, lines 128 to 164. It tests
  \<^verbatim>\<open>if (prompt)\<close>, builds the log line with \<^verbatim>\<open>prompt.substring(0, 100)\<close>, calls
  \<^verbatim>\<open>quickPIICheck\<close> and only on a match \<^verbatim>\<open>detectPII\<close>. The listener runs after
  \<^verbatim>\<open>handleChatRequest\<close> has returned, so the \<^verbatim>\<open>try\<close> of lines 121 to 171 does not reach an
  exception raised here.
\<close>

definition blockBody_p1 :: "(string \<times> json) list" where
  "blockBody_p1 =
     [(''error'', JStr ''PII Detected''),
      (''message'', JStr ''Your request contains personally identifiable information and has been blocked for security reasons.''),
      (''blocked'', JBool True),
      (''suggestion'', JStr ''Please remove any personal information such as names, emails, phone numbers, or addresses and try again.'')]"

definition handleChatRequest_p1_end ::
  "runtime \<Rightarrow> PIIDetector \<Rightarrow> 'a stats_scheme \<Rightarrow> string \<Rightarrow> string \<Rightarrow> 'a stats_scheme \<times> action list"
where
  "handleChatRequest_p1_end rt d st host bdy =
     (let prompt = extractPrompt_p1 rt bdy;
          allow = (st\<lparr>requestsAllowed := requestsAllowed st + 1\<rparr>, [ForwardRequest host bdy])
      in if \<not> truthy prompt then allow
         else (case prompt of
                 JStr s \<Rightarrow>
                   if \<not> quickPIICheck s then allow
                   else (case detectPII d (fetch rt) s of
                           None \<Rightarrow> (st, [remoteCall d s])
                         | Some (Inl e) \<Rightarrow> (st, [remoteCall d s, Unhandled e])
                         | Some (Inr hasPII) \<Rightarrow>
                             if hasPII
                             then (st\<lparr>requestsBlocked := requestsBlocked st + 1,
                                      piiDetections := piiDetections st + 1\<rparr>,
                                   [remoteCall d s, Respond 403 blockBody_p1])
                             else (st\<lparr>requestsAllowed := requestsAllowed st + 1\<rparr>,
                                   [remoteCall d s, ForwardRequest host bdy]))
               | _ \<Rightarrow> (st, [Unhandled TypeError])))"

text \<open>
  \<^verbatim>\<open>createProxyHandler\<close> of part_001, lines 86 to 108. \<^verbatim>\<open>handleChatRequest\<close> registers its
  listeners and returns \<^verbatim>\<open>false\<close> (line 166), so the handler goes on to \<^verbatim>\<open>proxyRequest\<close>;
  the listener runs when the body has arrived.
\<close>

definition createProxyHandler_p1 ::
  "(string \<times> bool) list \<Rightarrow> runtime \<Rightarrow> PIIDetector \<Rightarrow> 'a stats_scheme \<Rightarrow> request \<Rightarrow>
     'a stats_scheme \<times> action list"
where
  "createProxyHandler_p1 platforms rt d st req =
     (if \<not> isAIPlatform_config platforms (hostHeader req) then (st, [Next])
      else case hostHeader req of
             None \<Rightarrow> (st, [Next])
           | Some host \<Rightarrow>
               if reqMethod req = ''POST'' \<and> isChatEndpoint_p1 (originalUrl req)
               then (let (st', acts) = handleChatRequest_p1_end rt d st host (body req)
                     in (st', ProxyRequest host # acts))
               else (st, [ProxyRequest host]))"

section \<open>Certificates and the certificate directory\<close>

text \<open>
  A calendar date as \<^verbatim>\<open>Date\<close> shows it: year, month (0 for January), day of the month and
  the time of day in milliseconds. \<^verbatim>\<open>d.setFullYear(y)\<close> keeps month, day and time, except
  that the 29th of February of a year that has none becomes the 1st of March.
\<close>

record date =
  year :: int
  month :: nat
  day :: nat
  msOfDay :: nat

definition leapYear :: "int \<Rightarrow> bool" where
  "leapYear y = (y mod 4 = 0 \<and> (y mod 100 \<noteq> 0 \<or> y mod 400 = 0))"

definition setFullYear :: "date \<Rightarrow> int \<Rightarrow> date" where
  "setFullYear d y =
     (if month d = 1 \<and> day d = 29 \<and> \<not> leapYear y
      then d\<lparr>year := y, month := 2, day := 1\<rparr>
      else d\<lparr>year := y\<rparr>)"

text \<open>
  Keys are names for key material: \<^verbatim>\<open>generateKeyPair\<close> returns a public and a private
  one. A certificate records the private key that signed it. The serial number of a
  server certificate is the decimal form of \<^verbatim>\<open>getTime()\<close> of an instant, kept here as
  that instant; the certificate of the authority has the serial \<^verbatim>\<open>'01'\<close>.
\<close>

record keypair =
  publicKey :: nat
  privateKey :: nat

datatype serial = SerialText string | SerialTime date

datatype extension =
    BasicConstraints bool
  | KeyUsage bool bool bool
  | SubjectAltName "(nat \<times> string) list"

record certificate =
  certPublicKey :: nat
  serialNumber :: serial
  notBefore :: date
  notAfter :: date
  subject :: "(string \<times> string) list"
  issuer :: "(string \<times> string) list"
  extensions :: "extension list"
  signedWith :: nat

text \<open>
  A file of the certificate directory: a PEM certificate, a PEM private key, any other
  text, or a file that is there and cannot be read. The directory maps a path to its file.
\<close>

datatype content = Unreadable | PemCert certificate | PemKey nat | Raw string

type_synonym files = "string \<Rightarrow> content option"

datatype io_error = ENOENT string | EACCES string | BadPem string

definition existsSync :: "files \<Rightarrow> string \<Rightarrow> bool" where
  "existsSync fs p = (fs p \<noteq> None)"

definition readFileSync :: "files \<Rightarrow> string \<Rightarrow> io_error + content" where
  "readFileSync fs p =
     (case fs p of
        None \<Rightarrow> Inl (ENOENT p)
      | Some Unreadable \<Rightarrow> Inl (EACCES p)
      | Some c \<Rightarrow> Inr c)"

text \<open>\<^verbatim>\<open>path.join(__dirname, 'certificates', name)\<close>, for a name without path separators.\<close>

definition certPathOf :: "string \<Rightarrow> string" where
  "certPathOf name = ''certificates/'' @ name"

subsection \<open>CertificateManager (part_000)\<close>

text \<open>\<^verbatim>\<open>generateCA\<close>, lines 17 to 65, with the key pair generated and the two clock readings as arguments.\<close>

definition caAttrs :: "(string \<times> string) list" where
  "caAttrs =
     [(''commonName'', ''AI Proxy Protector CA''),
      (''organizationName'', ''AI Proxy Protector''),
      (''organizationalUnitName'', ''Security'')]"

definition generateCA :: "files \<Rightarrow> keypair \<Rightarrow> date \<Rightarrow> date \<Rightarrow> files" where
  "generateCA fs caKeys tBefore tAfter =
     (let caCert =
            \<lparr> certPublicKey = publicKey caKeys,
              serialNumber = SerialText ''01'',
              notBefore = tBefore,
              notAfter = setFullYear tAfter (year tBefore + 10),
              subject = caAttrs,
              issuer = caAttrs,
              extensions = [BasicConstraints True, KeyUsage True True True],
              signedWith = privateKey caKeys \<rparr>
      in fs(certPathOf ''ca.crt'' \<mapsto> PemCert caCert,
            certPathOf ''ca.key'' \<mapsto> PemKey (privateKey caKeys)))"

text \<open>
  What one call of \<^verbatim>\<open>generateServerCert\<close> takes from outside: the key pair that
  \<^verbatim>\<open>generateKeyPair\<close> returns and the three readings of the clock, for the serial number
  (line 82), \<^verbatim>\<open>notBefore\<close> (line 83) and \<^verbatim>\<open>notAfter\<close> (line 84).
\<close>

record issueEnv =
  serverKeys :: keypair
  tSerial :: date
  tBefore :: date
  tAfter :: date

text \<open>
  \<^verbatim>\<open>generateServerCert\<close>, lines 67 to 119. It reads and decodes the authority's
  certificate and key (an exception when a file is missing or is not of the kind
  expected), builds and signs the certificate, and writes both files over whatever was
  there; writing is taken to succeed. It looks at no earlier certificate of the host name.
\<close>

definition generateServerCert ::
  "files \<Rightarrow> issueEnv \<Rightarrow> string \<Rightarrow> io_error + (files \<times> string \<times> string)"
where
  "generateServerCert fs env hostname =
     (case readFileSync fs (certPathOf ''ca.crt'') of
        Inl e \<Rightarrow> Inl e
      | Inr caCertPem \<Rightarrow>
     (case readFileSync fs (certPathOf ''ca.key'') of
        Inl e \<Rightarrow> Inl e
      | Inr caKeyPem \<Rightarrow>
     (case caCertPem of
        PemCert caCert \<Rightarrow>
          (case caKeyPem of
             PemKey caKey \<Rightarrow>
               (let serverCert =
                      \<lparr> certPublicKey = publicKey (serverKeys env),
                        serialNumber = SerialTime (tSerial env),
                        notBefore = tBefore env,
                        notAfter = setFullYear (tAfter env) (year (tBefore env) + 1),
                        subject = [(''commonName'', hostname)],
                        issuer = subject caCert,
                        extensions = [SubjectAltName [(2, hostname), (2, ''*.'' @ hostname)]],
                        signedWith = caKey \<rparr>;
                    certPath = certPathOf (hostname @ ''.crt'');
                    keyPath = certPathOf (hostname @ ''.key'')
                in Inr (fs(certPath \<mapsto> PemCert serverCert,
                           keyPath \<mapsto> PemKey (privateKey (serverKeys env))),
                        certPath, keyPath))
           | _ \<Rightarrow> Inl (BadPem (certPathOf ''ca.key'')))
      | _ \<Rightarrow> Inl (BadPem (certPathOf ''ca.crt'')))))"

text \<open>
  \<^verbatim>\<open>setup\<close>, lines 121 to 140: the authority is generated when \<^verbatim>\<open>ca.crt\<close> is not there, and
  for each platform a certificate is generated when its \<^verbatim>\<open>.crt\<close> file is not there. The
  environment gives, per platform, what the call of \<^verbatim>\<open>generateServerCert\<close> would take.
\<close>

definition setupPlatformNames :: "string list" where
  "setupPlatformNames =
     [''chat.openai.com'', ''claude.ai'', ''bard.google.com'', ''copilot.microsoft.com'']"

fun setupEach :: "(string \<Rightarrow> issueEnv) \<Rightarrow> files \<Rightarrow> string list \<Rightarrow> io_error + files" where
  "setupEach envOf fs [] = Inr fs"
| "setupEach envOf fs (platform # platforms) =
     (if \<not> existsSync fs (certPathOf (platform @ ''.crt''))
      then (case generateServerCert fs (envOf platform) platform of
              Inl e \<Rightarrow> Inl e
            | Inr (fs', paths) \<Rightarrow> setupEach envOf fs' platforms)
      else setupEach envOf fs platforms)"

definition setup_certs ::
  "keypair \<Rightarrow> date \<Rightarrow> date \<Rightarrow> (string \<Rightarrow> issueEnv) \<Rightarrow> files \<Rightarrow> io_error + files"
where
  "setup_certs caKeys tCaBefore tCaAfter envOf fs =
     (let fs1 = (if \<not> existsSync fs (certPathOf ''ca.crt'')
                 then generateCA fs caKeys tCaBefore tCaAfter else fs)
      in setupEach envOf fs1 setupPlatformNames)"

text \<open>A certificate is past its validity at a date: the comparison of dates, field by field.\<close>

definition dateBefore :: "date \<Rightarrow> date \<Rightarrow> bool" where
  "dateBefore a b =
     (year a < year b \<or> (year a = year b \<and>
       (month a < month b \<or> (month a = month b \<and>
         (day a < day b \<or> (day a = day b \<and> msOfDay a < msOfDay b))))))"

section \<open>CONNECT handling (server.js)\<close>

text \<open>
  What a CONNECT handler does, in order: a write to the client socket, \<^verbatim>\<open>end\<close> of the
  client socket with or without a last write, reading a file, the HTTPS server created
  with certificate and key, the call of \<^verbatim>\<open>TLSSocket\<close> on the client socket with
  certificate and key (the step that is to start TLS towards the client), the TCP
  connection to the target, the head written to the target, the two sockets piped into
  each other, and an exception that nothing catches: of the file system, or a TypeError.
\<close>

datatype sock_event =
    ClientWrite string
  | ClientEnd string
  | ClientEndEmpty
  | ReadFile string
  | CreateHttpsServer content content
  | CallTLSSocket content content
  | NetConnect string nat
  | ServerWriteHead
  | PipeBoth
  | Uncaught io_error
  | UncaughtTypeError

definition established :: string where
  "established = ''HTTP/1.1 200 Connection Established'' @ [CHR 0x0D, CHR 0x0A, CHR 0x0D, CHR 0x0A]"

definition serverError :: string where
  "serverError = ''HTTP/1.1 500 Internal Server Error'' @ [CHR 0x0D, CHR 0x0A, CHR 0x0D, CHR 0x0A]"

fun isPemCert :: "content \<Rightarrow> bool" where
  "isPemCert (PemCert c) = True"
| "isPemCert c = False"

fun isPemKey :: "content \<Rightarrow> bool" where
  "isPemKey (PemKey k) = True"
| "isPemKey c = False"

text \<open>
  \<^verbatim>\<open>handleAIConnect\<close>, lines 243 to 273. When either file is missing the socket is ended
  with the 500 line. Otherwise the 200 line is written, then the files are read and the
  HTTPS server is created (an exception when the files do not hold a certificate and a
  key; the key is taken to belong to the certificate, as \<^verbatim>\<open>generateServerCert\<close> writes
  them). Line 266, \<^verbatim>\<open>new require('tls').TLSSocket(clientSocket, ...)\<close>, applies \<^verbatim>\<open>new\<close> to
  \<^verbatim>\<open>require('tls')\<close>, which gives the module, and then calls the module's \<^verbatim>\<open>TLSSocket\<close>
  as a plain function: with the module as \<^verbatim>\<open>this\<close> it throws a TypeError
  (\<^verbatim>\<open>this._wrapHandle is not a function\<close>). No TLS socket comes into being, and line 272 is
  not reached.
\<close>

definition handleAIConnect :: "files \<Rightarrow> string \<Rightarrow> sock_event list" where
  "handleAIConnect fs hostname =
     (let certPath = certPathOf (hostname @ ''.crt'');
          keyPath = certPathOf (hostname @ ''.key'')
      in if \<not> existsSync fs certPath \<or> \<not> existsSync fs keyPath
         then [ClientEnd serverError]
         else ClientWrite established #
           (case readFileSync fs certPath of
              Inl e \<Rightarrow> [Uncaught e]
            | Inr cert \<Rightarrow> ReadFile certPath #
           (case readFileSync fs keyPath of
              Inl e \<Rightarrow> [Uncaught e]
            | Inr key \<Rightarrow> ReadFile keyPath #
                (if isPemCert cert \<and> isPemKey key
                 then [CreateHttpsServer cert key, CallTLSSocket cert key, UncaughtTypeError]
                 else [Uncaught (BadPem certPath)]))))"

text \<open>
  \<^verbatim>\<open>handleRegularConnect\<close>, lines 275 to 293: \<^verbatim>\<open>net.connect(port || 443, hostname)\<close>, where
  the port is absent (\<open>None\<close>) when the target names none; on connection the 200 line,
  the head and the two pipes; on an error of the connection the client socket is ended.
  \<open>reachable\<close> says whether the connection is made.
\<close>

definition handleRegularConnect ::
  "(string \<Rightarrow> nat \<Rightarrow> bool) \<Rightarrow> string \<Rightarrow> nat option \<Rightarrow> sock_event list"
where
  "handleRegularConnect reachable hostname port =
     (let p = (case port of None \<Rightarrow> 443 | Some n \<Rightarrow> n)
      in if reachable hostname p
         then [NetConnect hostname p, ClientWrite established, ServerWriteHead, PipeBoth]
         else [NetConnect hostname p, ClientEndEmpty])"

text \<open>
  \<^verbatim>\<open>handleConnect\<close>, lines 229 to 241, on the hostname and port that \<^verbatim>\<open>url.parse\<close> takes
  from the CONNECT target.
\<close>

definition handleConnect ::
  "files \<Rightarrow> (string \<Rightarrow> nat \<Rightarrow> bool) \<Rightarrow> string \<Rightarrow> nat option \<Rightarrow> sock_event list"
where
  "handleConnect fs reachable hostname port =
     (if isAIPlatform hostname
      then handleAIConnect fs hostname
      else handleRegularConnect reachable hostname port)"

fun isTlsEvent :: "sock_event \<Rightarrow> bool" where
  "isTlsEvent (CallTLSSocket c k) = True"
| "isTlsEvent e = False"

section \<open>Concrete requests and runtimes\<close>

text \<open>
  Values on which the handlers are evaluated below. \<open>fixedRuntime parsed reply\<close> is a
  runtime whose parser yields \<open>parsed\<close> and whose remote call yields \<open>reply\<close>;
  \<open>geminiReply t\<close> is a reply of the shape the classifier endpoint sends, with the text
  \<open>t\<close>; \<open>dq s\<close> is \<open>s\<close> between double quotes, for writing request bodies.
\<close>

definition geminiReply :: "string \<Rightarrow> json" where
  "geminiReply t =
     JObj [(''candidates'',
            JArr [JObj [(''content'', JObj [(''parts'', JArr [JObj [(''text'', JStr t)]])])]])]"

definition fixedRuntime :: "json option \<Rightarrow> fetch_result \<Rightarrow> runtime" where
  "fixedRuntime parsed reply =
     \<lparr> JSON_parse = (\<lambda>b. parsed),
       fetch = (\<lambda>url init. reply),
       nowISO = ''2024-01-01T00:00:00.000Z'',
       gtTen = (\<lambda>v. Inr False),
       keyBefore = (\<lambda>v. ''NaN'') \<rparr>"

definition detector0 :: PIIDetector where
  "detector0 = newPIIDetector ''k''"

definition stats0 :: stats where
  "stats0 = \<lparr> requestsBlocked = 0, requestsAllowed = 0, piiDetections = 0 \<rparr>"

definition dq :: "string \<Rightarrow> string" where
  "dq s = [CHR 0x22] @ s @ [CHR 0x22]"

definition chatPost :: "string \<Rightarrow> request" where
  "chatPost b =
     \<lparr> reqMethod = ''POST'', originalUrl = ''/v1/chat/completions'',
       hostHeader = Some ''chat.openai.com'', body = b \<rparr>"

text \<open>
  \<open>alarmRuntime parsed\<close>: the parser yields \<open>parsed\<close> and the classifier answers
  \<^verbatim>\<open>PII_DETECTED\<close> to whatever it is asked. \<open>promptBody t\<close> is the body
  \<^verbatim>\<open>{"prompt":"t"}\<close> and \<open>promptData t\<close> what it parses to; likewise for \<^verbatim>\<open>query\<close>.
\<close>

definition alarmRuntime :: "json option \<Rightarrow> runtime" where
  "alarmRuntime parsed = fixedRuntime parsed (Response 200 (Body (geminiReply ''PII_DETECTED'')))"

definition promptBody :: "string \<Rightarrow> string" where
  "promptBody t = ''{'' @ dq ''prompt'' @ '':'' @ dq t @ ''}''"

definition promptData :: "string \<Rightarrow> json" where
  "promptData t = JObj [(''prompt'', JStr t)]"

definition queryBody :: "string \<Rightarrow> string" where
  "queryBody t = ''{'' @ dq ''query'' @ '':'' @ dq t @ ''}''"

definition queryData :: "string \<Rightarrow> json" where
  "queryData t = JObj [(''query'', JStr t)]"

text \<open>The body \<^verbatim>\<open>{"prompt":[1,2,3,4,5,6,7,8,9,10,11]}\<close> and what it parses to.\<close>

definition elevenBody :: string where
  "elevenBody = ''{'' @ dq ''prompt'' @ '':[1,2,3,4,5,6,7,8,9,10,11]}''"

definition elevenData :: json where
  "elevenData = JObj [(''prompt'', JArr (map JNum [1, 2, 3, 4, 5, 6, 7, 8, 9, 10, 11]))]"

text \<open>The body \<^verbatim>\<open>{"messages":[],"prompt":"X"}\<close> and what it parses to.\<close>

definition emptyMessagesBody :: string where
  "emptyMessagesBody = ''{'' @ dq ''messages'' @ '':[],'' @ dq ''prompt'' @ '':'' @ dq ''X'' @ ''}''"

definition emptyMessagesData :: json where
  "emptyMessagesData = JObj [(''messages'', JArr []), (''prompt'', JStr ''X'')]"

text \<open>
  A certificate directory after \<^verbatim>\<open>generateCA\<close>, and two environments of
  \<^verbatim>\<open>generateServerCert\<close>: two calls, some months apart, each with the key pair generated
  during it.
\<close>

definition dateOf :: "int \<Rightarrow> nat \<Rightarrow> nat \<Rightarrow> date" where
  "dateOf y m dd = \<lparr> year = y, month = m, day = dd, msOfDay = 0 \<rparr>"

definition caFiles :: files where
  "caFiles = generateCA (\<lambda>p. None) \<lparr> publicKey = 1, privateKey = 2 \<rparr> (dateOf 2024 0 15) (dateOf 2024 0 15)"

definition firstIssue :: issueEnv where
  "firstIssue =
     \<lparr> serverKeys = \<lparr> publicKey = 3, privateKey = 4 \<rparr>,
       tSerial = dateOf 2024 1 1, tBefore = dateOf 2024 1 1, tAfter = dateOf 2024 1 1 \<rparr>"

definition secondIssue :: issueEnv where
  "secondIssue =
     \<lparr> serverKeys = \<lparr> publicKey = 5, privateKey = 6 \<rparr>,
       tSerial = dateOf 2024 5 1, tBefore = dateOf 2024 5 1, tAfter = dateOf 2024 5 1 \<rparr>"

text \<open>The directory after the first and after the second call for \<^verbatim>\<open>claude.ai\<close>.\<close>

definition filesAfter :: "io_error + (files \<times> string \<times> string) \<Rightarrow> files" where
  "filesAfter r = (case r of Inl e \<Rightarrow> (\<lambda>p. None) | Inr (fs, paths) \<Rightarrow> fs)"

definition issuedOnce :: files where
  "issuedOnce = filesAfter (generateServerCert caFiles firstIssue ''claude.ai'')"

definition issuedTwice :: files where
  "issuedTwice = filesAfter (generateServerCert issuedOnce secondIssue ''claude.ai'')"

text \<open>The certificate a directory holds at a path, if it holds one.\<close>

definition certAt :: "files \<Rightarrow> string \<Rightarrow> certificate option" where
  "certAt fs p = (case fs p of Some (PemCert c) \<Rightarrow> Some c | _ \<Rightarrow> None)"

text \<open>
  A directory in which \<^verbatim>\<open>ca.crt\<close> and the \<^verbatim>\<open>.crt\<close> file of each platform of \<^verbatim>\<open>setup\<close> are
  already there, each holding some old text.
\<close>

definition stocked :: files where
  "stocked =
     (\<lambda>p. if p \<in> set (certPathOf ''ca.crt'' # map (\<lambda>h. certPathOf (h @ ''.crt'')) setupPlatformNames)
          then Some (Raw ''old'') else None)"



section \<open>Host matching\<close>

lemma startsAt_prefix: "startsAt needle hay \<longleftrightarrow> prefix needle hay"
  by (induction needle hay rule: startsAt.induct) simp_all

lemma str_includes_sublist: "str_includes hay needle \<longleftrightarrow> sublist needle hay"
  by (induction hay) (simp_all add: startsAt_prefix sublist_Cons_right)

lemma isAIPlatform_sublist: "isAIPlatform host \<longleftrightarrow> (\<exists>platform\<in>set aiPlatforms. sublist platform host)"
  by (simp add: isAIPlatform_def list_ex_iff str_includes_sublist)

text \<open>
  Claim C1, as amended. A host is intercepted exactly when the name of some platform of
  the list occurs in it as a substring, at any position: this one test decides the
  branch of \<^verbatim>\<open>handleConnect\<close> on the CONNECT target and the branch of the catch-all
  route on a Host header that is not empty.
\<close>

theorem C1_substring_interception:
  "(isAIPlatform host \<longleftrightarrow>
      (\<exists>platform\<in>set aiPlatforms. \<exists>before after. host = before @ platform @ after))
   \<and> handleConnect fs reachable host port =
       (if \<exists>platform\<in>set aiPlatforms. \<exists>before after. host = before @ platform @ after
        then handleAIConnect fs host else handleRegularConnect reachable host port)
   \<and> setupRoutes_all rt d st (req\<lparr>hostHeader := Some (c # host)\<rparr>) =
       (if \<exists>platform\<in>set aiPlatforms. \<exists>before after. c # host = before @ platform @ after
        then handleAIPlatform rt d st (req\<lparr>hostHeader := Some (c # host)\<rparr>) (c # host)
        else (st, [ProxyRequest (c # host)]))"
  by (simp add: isAIPlatform_sublist handleConnect_def setupRoutes_all_def sublist_def)

text \<open>The amended claim at the host \<^verbatim>\<open>api.claude.ai\<close>, which is intercepted.\<close>

theorem C1_substring_interception_witness:
  "isAIPlatform ''api.claude.ai'' \<and>
   (\<exists>platform\<in>set aiPlatforms. \<exists>before after. ''api.claude.ai'' = before @ platform @ after)"
proof -
  have "isAIPlatform ''api.claude.ai''" by code_simp
  then show ?thesis using C1_substring_interception [of "''api.claude.ai''"] by blast
qed

text \<open>
  Claim C1 as stated fails: \<^verbatim>\<open>claude.ai.evil.example\<close> and \<^verbatim>\<open>notclaude.ai\<close> are intercepted,
  though neither is a platform's name nor ends with a dot and a platform's name. A
  CONNECT to \<^verbatim>\<open>notclaude.ai\<close> goes to \<^verbatim>\<open>handleAIConnect\<close>, which finds no certificate
  in an empty directory and answers 500, where a tunnel would have been opened.
\<close>

theorem C1_counterexample:
  "isAIPlatform ''claude.ai.evil.example''
   \<and> \<not> list_ex (exactOrSuffix_spec ''claude.ai.evil.example'') aiPlatforms
   \<and> isAIPlatform ''notclaude.ai''
   \<and> \<not> list_ex (exactOrSuffix_spec ''notclaude.ai'') aiPlatforms
   \<and> handleConnect (\<lambda>p. None) (\<lambda>h p. True) ''notclaude.ai'' (Some 443) = [ClientEnd serverError]"
  by code_simp

section \<open>The verdict of the classifier\<close>
















lemma detectPII_Clear:
  assumes "env (apiUrl d @ ''?key='' @ apiKey d) (detectRequest txt) = Rejected
         \<or> (\<exists>status b. env (apiUrl d @ ''?key='' @ apiKey d) (detectRequest txt) = Response status b
                \<and> (status < 200 \<or> 299 < status \<or> (200 \<le> status \<and> status \<le> 299 \<and> b = BodyRejected)))"
  shows "detectPII d env txt = Some (Inr False)"
  using assms by (auto simp: detectPII_def detectPII_try_def response_ok_def)





section \<open>Inspection of chat requests\<close>

lemma quickPIICheck_Nil: "\<not> quickPIICheck []"
  by code_simp

lemma longPrompt_JStr: "longPrompt rt (JStr s) = Inr (10 < length s)"
  by (cases s) (simp_all add: longPrompt_def)

lemma handleAIPlatform_end_JStr:
  assumes "extractPrompt rt bdy = JStr s"
  shows "handleAIPlatform_end rt d st host bdy =
     (if 10 < length s
      then (case detectPII d (fetch rt) s of
              None \<Rightarrow> (st, [remoteCall d s])
            | Some (Inl e) \<Rightarrow> (st, [remoteCall d s, ForwardRequest host bdy])
            | Some (Inr hasPII) \<Rightarrow>
                if hasPII
                then (st\<lparr>requestsBlocked := requestsBlocked st + 1,
                         piiDetections := piiDetections st + 1\<rparr>,
                      [remoteCall d s, Respond 403 blockBody])
                else (st\<lparr>requestsAllowed := requestsAllowed st + 1\<rparr>,
                      [remoteCall d s, ForwardRequest host bdy]))
      else (st\<lparr>requestsAllowed := requestsAllowed st + 1\<rparr>, [ForwardRequest host bdy]))"
  by (simp add: handleAIPlatform_end_def assms longPrompt_JStr Let_def)

lemma handleChatRequest_s2_JStr:
  assumes "extractPrompt_s2 rt bdy = JStr s"
  shows "handleChatRequest_s2 rt d st host bdy =
     (if 10 < length s
      then (case detectPII d (fetch rt) s of
              None \<Rightarrow> (st, [remoteCall d s])
            | Some (Inl e) \<Rightarrow> (st\<lparr>requestsAllowed := requestsAllowed st + 1\<rparr>,
                        [remoteCall d s, ForwardRequest host bdy])
            | Some (Inr hasPII) \<Rightarrow>
                if hasPII
                then (st\<lparr>requestsBlocked := requestsBlocked st + 1,
                         piiDetections := piiDetections st + 1\<rparr>,
                      [remoteCall d s, Respond 403 (blockBody_s2 rt)])
                else (st\<lparr>requestsAllowed := requestsAllowed st + 1\<rparr>,
                      [remoteCall d s, ForwardRequest host bdy]))
      else (st\<lparr>requestsAllowed := requestsAllowed st + 1\<rparr>, [ForwardRequest host bdy]))"
  by (simp add: handleChatRequest_s2_def assms longPrompt_JStr Let_def)

text \<open>
  A text that is classified Detected is answered with 403 and not forwarded by
  \<^verbatim>\<open>handleAIPlatform\<close> of server.js, where it is classified when it is longer than 10, and
  by the \<^verbatim>\<open>end\<close> listener of part_001, where it is classified when \<^verbatim>\<open>quickPIICheck\<close>
  matches. The object of the answer has the keys \<^verbatim>\<open>error\<close>, \<^verbatim>\<open>message\<close>, \<^verbatim>\<open>suggestion\<close> and
  \<^verbatim>\<open>blocked\<close>, the last one \<^verbatim>\<open>true\<close>.
\<close>

lemma detected_is_blocked:
  assumes "detectPII d (fetch rt) s = Some (Inr True)"
  shows "(reqMethod req = ''POST'' \<and> isChatEndpoint (originalUrl req)
            \<and> extractPrompt rt (body req) = JStr s \<and> 10 < length s \<longrightarrow>
          handleAIPlatform rt d st req host =
            (st\<lparr>requestsBlocked := requestsBlocked st + 1, piiDetections := piiDetections st + 1\<rparr>,
             [remoteCall d s, Respond 403 blockBody]))
       \<and> (extractPrompt_p1 rt bdy = JStr s \<and> quickPIICheck s \<longrightarrow>
          handleChatRequest_p1_end rt d st host bdy =
            (st\<lparr>requestsBlocked := requestsBlocked st + 1, piiDetections := piiDetections st + 1\<rparr>,
             [remoteCall d s, Respond 403 blockBody_p1]))
       \<and> map fst blockBody = [''error'', ''message'', ''suggestion'', ''blocked'']
       \<and> map_of blockBody ''blocked'' = Some (JBool True)
       \<and> map fst blockBody_p1 = [''error'', ''message'', ''blocked'', ''suggestion'']
       \<and> map_of blockBody_p1 ''blocked'' = Some (JBool True)"
proof -
  have a: "reqMethod req = ''POST'' \<and> isChatEndpoint (originalUrl req)
            \<and> extractPrompt rt (body req) = JStr s \<and> 10 < length s \<longrightarrow>
          handleAIPlatform rt d st req host =
            (st\<lparr>requestsBlocked := requestsBlocked st + 1, piiDetections := piiDetections st + 1\<rparr>,
             [remoteCall d s, Respond 403 blockBody])"
    using assms by (simp add: handleAIPlatform_def handleAIPlatform_end_JStr)
  have b: "extractPrompt_p1 rt bdy = JStr s \<and> quickPIICheck s \<longrightarrow>
          handleChatRequest_p1_end rt d st host bdy =
            (st\<lparr>requestsBlocked := requestsBlocked st + 1, piiDetections := piiDetections st + 1\<rparr>,
             [remoteCall d s, Respond 403 blockBody_p1])"
  proof (intro impI, elim conjE)
    assume e: "extractPrompt_p1 rt bdy = JStr s" and q: "quickPIICheck s"
    from q have "s \<noteq> []" using quickPIICheck_Nil by auto
    then show "handleChatRequest_p1_end rt d st host bdy =
            (st\<lparr>requestsBlocked := requestsBlocked st + 1, piiDetections := piiDetections st + 1\<rparr>,
             [remoteCall d s, Respond 403 blockBody_p1])"
      using e q assms by (simp add: handleChatRequest_p1_end_def Let_def)
  qed
  have c: "map fst blockBody = [''error'', ''message'', ''suggestion'', ''blocked'']"
          "map_of blockBody ''blocked'' = Some (JBool True)"
          "map fst blockBody_p1 = [''error'', ''message'', ''blocked'', ''suggestion'']"
          "map_of blockBody_p1 ''blocked'' = Some (JBool True)"
    by (simp_all add: blockBody_def blockBody_p1_def)
  from a b c show ?thesis by blast
qed

text \<open>
  In part_001 the handler that registers the listener has already called
  \<^verbatim>\<open>proxyRequest\<close> when the listener runs, whatever the listener then decides.
\<close>

lemma createProxyHandler_p1_proxies_first:
  assumes "isAIPlatform_config platforms (Some host)"
      and "reqMethod req = ''POST''" and "isChatEndpoint_p1 (originalUrl req)"
      and "hostHeader req = Some host"
  shows "snd (createProxyHandler_p1 platforms rt d st req) =
           ProxyRequest host # snd (handleChatRequest_p1_end rt d st host (body req))"
  using assms by (simp add: createProxyHandler_p1_def split: prod.splits)

text \<open>
  Claim C4 at the request \<^verbatim>\<open>POST /v1/chat/completions\<close> to \<^verbatim>\<open>chat.openai.com\<close> with the
  body \<^verbatim>\<open>{"prompt":"contact me at a@b.com"}\<close> and a classifier that answers
  \<^verbatim>\<open>PII_DETECTED\<close>. The handler of part_001 counts the request as blocked and answers
  403, but it has proxied the request upstream before: \<^verbatim>\<open>handleChatRequest\<close> returns
  \<^verbatim>\<open>false\<close> before its listener runs, so \<^verbatim>\<open>if (blocked) return\<close> never leaves the handler.
  The catch-all route of server.js blocks the same request and forwards nothing.
\<close>

theorem C4_blocked_request_still_proxied:
  "createProxyHandler_p1 defaultPlatforms (alarmRuntime (Some (promptData ''contact me at a@b.com'')))
       detector0 stats0 (chatPost (promptBody ''contact me at a@b.com'')) =
     (stats0\<lparr>requestsBlocked := 1, piiDetections := 1\<rparr>,
      [ProxyRequest ''chat.openai.com'', remoteCall detector0 ''contact me at a@b.com'',
       Respond 403 blockBody_p1])
   \<and> setupRoutes_all (alarmRuntime (Some (promptData ''contact me at a@b.com'')))
       detector0 stats0 (chatPost (promptBody ''contact me at a@b.com'')) =
     (stats0\<lparr>requestsBlocked := 1, piiDetections := 1\<rparr>,
      [remoteCall detector0 ''contact me at a@b.com'', Respond 403 blockBody])"
  by code_simp

text \<open>
  Claim C6 as stated fails at a text of exactly 10 characters: \<^verbatim>\<open>a@b.com ok\<close> is not
  shorter than 10, and the classifier, which would answer \<^verbatim>\<open>PII_DETECTED\<close>, is not called;
  the request is forwarded and counted as allowed.
\<close>

theorem C6_counterexample:
  "length ''a@b.com ok'' = 10
   \<and> extractPrompt (alarmRuntime (Some (promptData ''a@b.com ok''))) (promptBody ''a@b.com ok'') = JStr ''a@b.com ok''
   \<and> handleAIPlatform (alarmRuntime (Some (promptData ''a@b.com ok''))) detector0 stats0
         (chatPost (promptBody ''a@b.com ok'')) ''chat.openai.com'' =
       (stats0\<lparr>requestsAllowed := 1\<rparr>, [ForwardRequest ''chat.openai.com'' (promptBody ''a@b.com ok'')])
   \<and> \<not> list_ex isRemoteCall (snd (handleAIPlatform (alarmRuntime (Some (promptData ''a@b.com ok''))) detector0 stats0
         (chatPost (promptBody ''a@b.com ok'')) ''chat.openai.com''))"
  by code_simp

text \<open>
  Claim C6, as amended. For an extracted text that is a string, both handlers of
  server.js call the classifier exactly when the text is longer than 10 characters. A
  text of 10 characters or fewer is not classified: the request is forwarded,
  \<^verbatim>\<open>requestsAllowed\<close> goes up by one and the other counters stay.
\<close>

theorem C6_length_threshold:
  "(extractPrompt rt bdy = JStr s \<longrightarrow>
      (list_ex isRemoteCall (snd (handleAIPlatform_end rt d st host bdy)) \<longleftrightarrow> 10 < length s)
      \<and> (length s \<le> 10 \<longrightarrow>
           handleAIPlatform_end rt d st host bdy =
             (st\<lparr>requestsAllowed := requestsAllowed st + 1\<rparr>, [ForwardRequest host bdy])))
   \<and> (extractPrompt_s2 rt bdy = JStr s \<longrightarrow>
      (list_ex isRemoteCall (snd (handleChatRequest_s2 rt d st host bdy)) \<longleftrightarrow> 10 < length s)
      \<and> (length s \<le> 10 \<longrightarrow>
           handleChatRequest_s2 rt d st host bdy =
             (st\<lparr>requestsAllowed := requestsAllowed st + 1\<rparr>, [ForwardRequest host bdy])))"
proof -
  have a: "extractPrompt rt bdy = JStr s \<Longrightarrow>
      (list_ex isRemoteCall (snd (handleAIPlatform_end rt d st host bdy)) \<longleftrightarrow> 10 < length s)
      \<and> (length s \<le> 10 \<longrightarrow>
           handleAIPlatform_end rt d st host bdy =
             (st\<lparr>requestsAllowed := requestsAllowed st + 1\<rparr>, [ForwardRequest host bdy]))"
    by (simp add: handleAIPlatform_end_JStr remoteCall_def split: option.splits sum.splits)
  have b: "extractPrompt_s2 rt bdy = JStr s \<Longrightarrow>
      (list_ex isRemoteCall (snd (handleChatRequest_s2 rt d st host bdy)) \<longleftrightarrow> 10 < length s)
      \<and> (length s \<le> 10 \<longrightarrow>
           handleChatRequest_s2 rt d st host bdy =
             (st\<lparr>requestsAllowed := requestsAllowed st + 1\<rparr>, [ForwardRequest host bdy]))"
    by (simp add: handleChatRequest_s2_JStr remoteCall_def split: option.splits sum.splits)
  from a b show ?thesis by blast
qed

text \<open>The amended claim at the text \<^verbatim>\<open>hi!!\<close> of length 4.\<close>

theorem C6_length_threshold_witness:
  "extractPrompt (alarmRuntime (Some (promptData ''hi!!''))) (promptBody ''hi!!'') = JStr ''hi!!''
   \<and> extractPrompt_s2 (alarmRuntime (Some (promptData ''hi!!''))) (promptBody ''hi!!'') = JStr ''hi!!''
   \<and> length ''hi!!'' \<le> 10
   \<and> handleAIPlatform_end (alarmRuntime (Some (promptData ''hi!!''))) detector0 stats0 ''chat.openai.com'' (promptBody ''hi!!'') =
       (stats0\<lparr>requestsAllowed := requestsAllowed stats0 + 1\<rparr>, [ForwardRequest ''chat.openai.com'' (promptBody ''hi!!'')])
   \<and> handleChatRequest_s2 (alarmRuntime (Some (promptData ''hi!!''))) detector0 stats0 ''chat.openai.com'' (promptBody ''hi!!'') =
       (stats0\<lparr>requestsAllowed := requestsAllowed stats0 + 1\<rparr>, [ForwardRequest ''chat.openai.com'' (promptBody ''hi!!'')])"
proof -
  have h1: "extractPrompt (alarmRuntime (Some (promptData ''hi!!''))) (promptBody ''hi!!'') = JStr ''hi!!''"
    by code_simp
  have h2: "extractPrompt_s2 (alarmRuntime (Some (promptData ''hi!!''))) (promptBody ''hi!!'') = JStr ''hi!!''"
    by code_simp
  have h3: "length ''hi!!'' \<le> 10" by simp
  show ?thesis
    using h1 h2 h3
      C6_length_threshold [of "alarmRuntime (Some (promptData ''hi!!''))" "promptBody ''hi!!''" "''hi!!''"
        detector0 stats0 "''chat.openai.com''"]
    by blast
qed

lemma handleChatRequest_p1_end_no_match:
  assumes "extractPrompt_p1 rt bdy = JStr s" and "\<not> quickPIICheck s"
  shows "handleChatRequest_p1_end rt d st host bdy =
           (st\<lparr>requestsAllowed := requestsAllowed st + 1\<rparr>, [ForwardRequest host bdy])"
  using assms by (simp add: handleChatRequest_p1_end_def Let_def)

text \<open>
  Claim C3 at the text \<^verbatim>\<open>hello there, how are you\<close>, which none of the five patterns
  matches. \<^verbatim>\<open>handleAIPlatform\<close> of server.js does not consult \<^verbatim>\<open>quickPIICheck\<close>: it sends
  the text to the classifier, and blocks the request when the classifier answers
  \<^verbatim>\<open>PII_DETECTED\<close>. The listener of part_001 returns Clear from the pre-filter, without a
  remote call, as the claim says.
\<close>

theorem C3_no_prefilter_in_server:
  "\<not> quickPIICheck ''hello there, how are you''
   \<and> handleAIPlatform (alarmRuntime (Some (promptData ''hello there, how are you''))) detector0 stats0
        (chatPost (promptBody ''hello there, how are you'')) ''chat.openai.com'' =
       (stats0\<lparr>requestsBlocked := 1, piiDetections := 1\<rparr>,
        [remoteCall detector0 ''hello there, how are you'', Respond 403 blockBody])
   \<and> handleChatRequest_p1_end (alarmRuntime (Some (promptData ''hello there, how are you''))) detector0 stats0
        ''chat.openai.com'' (promptBody ''hello there, how are you'') =
       (stats0\<lparr>requestsAllowed := 1\<rparr>,
        [ForwardRequest ''chat.openai.com'' (promptBody ''hello there, how are you'')])"
  by code_simp

text \<open>
  Claim C5 at the body \<^verbatim>\<open>{"query":"my email is a@b.com"}\<close>. \<^verbatim>\<open>extractPrompt\<close> of server.js
  lines 208 to 226 has no rule for \<^verbatim>\<open>query\<close> and yields the empty string, so the request
  is forwarded unclassified; the second implementation in server.js yields the query text.
\<close>

theorem C5_query_rule_missing:
  "extractPrompt (alarmRuntime (Some (queryData ''my email is a@b.com''))) (queryBody ''my email is a@b.com'') = JStr []
   \<and> extractPrompt_s2 (alarmRuntime (Some (queryData ''my email is a@b.com''))) (queryBody ''my email is a@b.com'')
        = JStr ''my email is a@b.com''
   \<and> handleAIPlatform (alarmRuntime (Some (queryData ''my email is a@b.com''))) detector0 stats0
        (chatPost (queryBody ''my email is a@b.com'')) ''chat.openai.com'' =
       (stats0\<lparr>requestsAllowed := 1\<rparr>, [ForwardRequest ''chat.openai.com'' (queryBody ''my email is a@b.com'')])"
  by code_simp

lemma handleAIPlatform_end_caught:
  assumes "longPrompt rt (extractPrompt rt bdy) = Inl e"
  shows "handleAIPlatform_end rt d st host bdy = (st, [ForwardRequest host bdy])"
  using assms by (simp add: handleAIPlatform_end_def Let_def)

lemma handleChatRequest_s2_caught:
  assumes "longPrompt rt (extractPrompt_s2 rt bdy) = Inl e"
  shows "handleChatRequest_s2 rt d st host bdy =
           (st\<lparr>requestsAllowed := requestsAllowed st + 1\<rparr>, [ForwardRequest host bdy])"
  using assms by (simp add: handleChatRequest_s2_def Let_def)

text \<open>
  Claim C7 at the body \<^verbatim>\<open>{"prompt":[1,2,3,4,5,6,7,8,9,10,11]}\<close>. The prompt is an array of
  length 11, so \<^verbatim>\<open>prompt.substring\<close> throws a TypeError inside the \<^verbatim>\<open>try\<close> block. The
  \<^verbatim>\<open>catch\<close> of \<^verbatim>\<open>handleAIPlatform\<close> forwards the request and leaves \<^verbatim>\<open>requestsAllowed\<close> as
  it was; the \<^verbatim>\<open>catch\<close> of the second implementation in server.js increments it.
\<close>

theorem C7_catch_without_count:
  "extractPrompt (alarmRuntime (Some elevenData)) elevenBody = JArr (map JNum [1, 2, 3, 4, 5, 6, 7, 8, 9, 10, 11])
   \<and> handleAIPlatform (alarmRuntime (Some elevenData)) detector0 stats0 (chatPost elevenBody) ''chat.openai.com'' =
       (stats0, [ForwardRequest ''chat.openai.com'' elevenBody])
   \<and> handleChatRequest_s2 (alarmRuntime (Some elevenData)) detector0 stats0 ''chat.openai.com'' elevenBody =
       (stats0\<lparr>requestsAllowed := 1\<rparr>, [ForwardRequest ''chat.openai.com'' elevenBody])"
  by code_simp

section \<open>Certificates, CONNECT and prompt extraction\<close>

lemma crt_neq_key: "certPathOf (a @ ''.crt'') \<noteq> certPathOf (b @ ''.key'')"
proof
  assume "certPathOf (a @ ''.crt'') = certPathOf (b @ ''.key'')"
  then have "a @ ''.crt'' = b @ ''.key''" by (simp add: certPathOf_def)
  then have "last (a @ ''.crt'') = last (b @ ''.key'')" by simp
  then show False by simp
qed

lemma crt_eq_iff: "certPathOf (a @ ''.crt'') = certPathOf (b @ ''.crt'') \<longleftrightarrow> a = b"
  by (simp add: certPathOf_def)

lemma generateServerCert_Inr:
  assumes "generateServerCert fs env hostname = Inr (fs', certPath, keyPath)"
  shows "\<exists>caCert caKey.
           fs (certPathOf ''ca.crt'') = Some (PemCert caCert)
         \<and> fs (certPathOf ''ca.key'') = Some (PemKey caKey)
         \<and> certPath = certPathOf (hostname @ ''.crt'')
         \<and> keyPath = certPathOf (hostname @ ''.key'')
         \<and> fs' = fs(certPath \<mapsto> PemCert
               \<lparr> certPublicKey = publicKey (serverKeys env),
                 serialNumber = SerialTime (tSerial env),
                 notBefore = tBefore env,
                 notAfter = setFullYear (tAfter env) (year (tBefore env) + 1),
                 subject = [(''commonName'', hostname)],
                 issuer = subject caCert,
                 extensions = [SubjectAltName [(2, hostname), (2, ''*.'' @ hostname)]],
                 signedWith = caKey \<rparr>,
               keyPath \<mapsto> PemKey (privateKey (serverKeys env)))"
  using assms
  by (auto simp: generateServerCert_def readFileSync_def Let_def
           split: option.splits content.splits sum.splits)

lemma year_setFullYear: "year (setFullYear d y) = y"
  by (simp add: setFullYear_def)

lemma generateServerCert_keeps:
  assumes "generateServerCert fs env q = Inr (fs', paths)" and "q \<noteq> p"
  shows "fs' (certPathOf (p @ ''.crt'')) = fs (certPathOf (p @ ''.crt''))"
proof -
  obtain certPath keyPath where "paths = (certPath, keyPath)" by (cases paths)
  with assms(1) have "generateServerCert fs env q = Inr (fs', certPath, keyPath)" by simp
  from generateServerCert_Inr [OF this] assms(2) show ?thesis
    using crt_neq_key [of p q] by (auto simp: crt_eq_iff)
qed

lemma setupEach_keeps:
  "fs (certPathOf (p @ ''.crt'')) = Some c \<Longrightarrow> setupEach envOf fs ps = Inr fs' \<Longrightarrow>
     fs' (certPathOf (p @ ''.crt'')) = Some c"
proof (induction ps arbitrary: fs)
  case Nil
  then show ?case by simp
next
  case (Cons q ps)
  show ?case
  proof (cases "existsSync fs (certPathOf (q @ ''.crt''))")
    case True
    with Cons show ?thesis by simp
  next
    case False
    with Cons.prems(1) have qp: "q \<noteq> p" by (auto simp: existsSync_def)
    from False Cons.prems(2) obtain fs1 paths where
      g: "generateServerCert fs (envOf q) q = Inr (fs1, paths)" and r: "setupEach envOf fs1 ps = Inr fs'"
      by (auto split: sum.splits)
    from generateServerCert_keeps [OF g qp] Cons.prems(1)
    have "fs1 (certPathOf (p @ ''.crt'')) = Some c" by simp
    from Cons.IH [OF this r] show ?thesis .
  qed
qed

lemma setup_certs_keeps:
  assumes "fs (certPathOf (p @ ''.crt'')) = Some c"
      and "setup_certs caKeys t1 t2 envOf fs = Inr fs'"
  shows "fs' (certPathOf (p @ ''.crt'')) = Some c"
proof -
  let ?fs1 = "if \<not> existsSync fs (certPathOf ''ca.crt'')
              then generateCA fs caKeys t1 t2 else fs"
  have "?fs1 (certPathOf (p @ ''.crt'')) = Some c"
  proof (cases "existsSync fs (certPathOf ''ca.crt'')")
    case True
    with assms(1) show ?thesis by simp
  next
    case False
    with assms(1) have "certPathOf (p @ ''.crt'') \<noteq> certPathOf ''ca.crt''"
      by (auto simp: existsSync_def)
    moreover have "certPathOf (p @ ''.crt'') \<noteq> certPathOf ''ca.key''"
      using crt_neq_key [of p "''ca''"] by simp
    ultimately show ?thesis using False assms(1) by (simp add: generateCA_def Let_def)
  qed
  moreover from assms(2) have "setupEach envOf ?fs1 setupPlatformNames = Inr fs'"
    by (simp add: setup_certs_def Let_def)
  ultimately show ?thesis by (rule setupEach_keeps)
qed

text \<open>
  Claim C9, as amended. A certificate that \<^verbatim>\<open>generateServerCert\<close> writes for a host name
  has that name as its only subject attribute \<^verbatim>\<open>commonName\<close>, the alternative names
  \<^verbatim>\<open>hostname\<close> and \<^verbatim>\<open>*.hostname\<close>, a \<^verbatim>\<open>notAfter\<close> in the calendar year after that of
  \<^verbatim>\<open>notBefore\<close>, the subject of the authority's certificate as issuer, and is signed with
  the authority's key read from the directory. \<^verbatim>\<open>setup\<close> keeps a \<^verbatim>\<open>.crt\<close> file that is
  already there, whatever it holds, and generates a certificate for a platform whose
  file is missing.
\<close>

theorem C9_issued_certificate:
  "(generateServerCert fs env hostname = Inr (fs', certPath, keyPath) \<longrightarrow>
      (\<exists>caCert caKey cert.
           fs (certPathOf ''ca.crt'') = Some (PemCert caCert)
         \<and> fs (certPathOf ''ca.key'') = Some (PemKey caKey)
         \<and> certPath = certPathOf (hostname @ ''.crt'')
         \<and> fs' certPath = Some (PemCert cert)
         \<and> subject cert = [(''commonName'', hostname)]
         \<and> extensions cert = [SubjectAltName [(2, hostname), (2, ''*.'' @ hostname)]]
         \<and> notBefore cert = tBefore env
         \<and> notAfter cert = setFullYear (tAfter env) (year (tBefore env) + 1)
         \<and> year (notAfter cert) = year (notBefore cert) + 1
         \<and> issuer cert = subject caCert
         \<and> signedWith cert = caKey
         \<and> certPublicKey cert = publicKey (serverKeys env)
         \<and> fs' keyPath = Some (PemKey (privateKey (serverKeys env)))))
   \<and> (fs (certPathOf (platform @ ''.crt'')) = Some c
        \<and> setup_certs caKeys t1 t2 envOf fs = Inr fs'' \<longrightarrow>
      fs'' (certPathOf (platform @ ''.crt'')) = Some c)
   \<and> (\<not> existsSync fs (certPathOf (platform @ ''.crt'')) \<longrightarrow>
      setupEach envOf fs [platform] =
        (case generateServerCert fs (envOf platform) platform of
           Inl e \<Rightarrow> Inl e | Inr (fs1, paths) \<Rightarrow> Inr fs1))"
proof -
  have a: "generateServerCert fs env hostname = Inr (fs', certPath, keyPath) \<Longrightarrow>
      (\<exists>caCert caKey cert.
           fs (certPathOf ''ca.crt'') = Some (PemCert caCert)
         \<and> fs (certPathOf ''ca.key'') = Some (PemKey caKey)
         \<and> certPath = certPathOf (hostname @ ''.crt'')
         \<and> fs' certPath = Some (PemCert cert)
         \<and> subject cert = [(''commonName'', hostname)]
         \<and> extensions cert = [SubjectAltName [(2, hostname), (2, ''*.'' @ hostname)]]
         \<and> notBefore cert = tBefore env
         \<and> notAfter cert = setFullYear (tAfter env) (year (tBefore env) + 1)
         \<and> year (notAfter cert) = year (notBefore cert) + 1
         \<and> issuer cert = subject caCert
         \<and> signedWith cert = caKey
         \<and> certPublicKey cert = publicKey (serverKeys env)
         \<and> fs' keyPath = Some (PemKey (privateKey (serverKeys env))))"
    using crt_neq_key [of hostname hostname]
    by (auto dest!: generateServerCert_Inr simp: year_setFullYear)
  have b: "fs (certPathOf (platform @ ''.crt'')) = Some c
        \<and> setup_certs caKeys t1 t2 envOf fs = Inr fs'' \<Longrightarrow>
      fs'' (certPathOf (platform @ ''.crt'')) = Some c"
    using setup_certs_keeps by blast
  have c: "\<not> existsSync fs (certPathOf (platform @ ''.crt'')) \<Longrightarrow>
      setupEach envOf fs [platform] =
        (case generateServerCert fs (envOf platform) platform of
           Inl e \<Rightarrow> Inl e | Inr (fs1, paths) \<Rightarrow> Inr fs1)"
    by (simp split: sum.splits)
  from a b c show ?thesis by blast
qed

text \<open>
  Claim C9 as stated fails: a second call of \<^verbatim>\<open>generateServerCert\<close> for \<^verbatim>\<open>claude.ai\<close>
  replaces the certificate of the first call by one with another public key, although
  the first one is there and has not expired at the time of the second call.
\<close>

theorem C9_counterexample:
  "certAt issuedOnce (certPathOf ''claude.ai.crt'') \<noteq> None
   \<and> certAt issuedTwice (certPathOf ''claude.ai.crt'') \<noteq> None
   \<and> certAt issuedTwice (certPathOf ''claude.ai.crt'') \<noteq> certAt issuedOnce (certPathOf ''claude.ai.crt'')
   \<and> map_option certPublicKey (certAt issuedOnce (certPathOf ''claude.ai.crt'')) = Some 3
   \<and> map_option certPublicKey (certAt issuedTwice (certPathOf ''claude.ai.crt'')) = Some 5
   \<and> map_option (\<lambda>c. dateBefore (tBefore secondIssue) (notAfter c))
        (certAt issuedOnce (certPathOf ''claude.ai.crt'')) = Some True"
  by code_simp

text \<open>
  The amended claim at \<^verbatim>\<open>claude.ai\<close>: generated in a directory that holds only the
  authority, and kept by \<^verbatim>\<open>setup\<close> in a directory where the files are already there.
\<close>

theorem C9_issued_certificate_witness:
  "generateServerCert caFiles firstIssue ''claude.ai'' =
     Inr (issuedOnce, certPathOf ''claude.ai.crt'', certPathOf ''claude.ai.key'')
   \<and> (\<exists>cert. issuedOnce (certPathOf (''claude.ai'' @ ''.crt'')) = Some (PemCert cert)
         \<and> subject cert = [(''commonName'', ''claude.ai'')]
         \<and> extensions cert = [SubjectAltName [(2, ''claude.ai''), (2, ''*.'' @ ''claude.ai'')]]
         \<and> signedWith cert = 2)
   \<and> stocked (certPathOf (''claude.ai'' @ ''.crt'')) = Some (Raw ''old'')
   \<and> setup_certs (serverKeys firstIssue) (tBefore firstIssue) (tAfter firstIssue) (\<lambda>p. secondIssue) stocked
        = Inr stocked
   \<and> \<not> existsSync caFiles (certPathOf (''claude.ai'' @ ''.crt''))
   \<and> setupEach (\<lambda>p. firstIssue) caFiles [''claude.ai''] = Inr issuedOnce"
proof -
  have g: "generateServerCert caFiles firstIssue ''claude.ai'' =
     Inr (issuedOnce, certPathOf ''claude.ai.crt'', certPathOf ''claude.ai.key'')"
    by (simp add: issuedOnce_def filesAfter_def generateServerCert_def readFileSync_def caFiles_def
          generateCA_def certPathOf_def Let_def)
  have k: "caFiles (certPathOf ''ca.key'') = Some (PemKey 2)"
    by (simp add: caFiles_def generateCA_def certPathOf_def Let_def)
  have s1: "stocked (certPathOf (''claude.ai'' @ ''.crt'')) = Some (Raw ''old'')"
    by (simp add: stocked_def setupPlatformNames_def)
  have s2: "setup_certs (serverKeys firstIssue) (tBefore firstIssue) (tAfter firstIssue) (\<lambda>p. secondIssue) stocked
        = Inr stocked"
    by (simp add: setup_certs_def setupPlatformNames_def existsSync_def stocked_def)
  have m: "\<not> existsSync caFiles (certPathOf (''claude.ai'' @ ''.crt''))"
    by (simp add: caFiles_def generateCA_def certPathOf_def existsSync_def Let_def)
  note T = C9_issued_certificate [of caFiles firstIssue "''claude.ai''" issuedOnce
            "certPathOf ''claude.ai.crt''" "certPathOf ''claude.ai.key''" "''claude.ai''" "Raw ''old''"
            "serverKeys firstIssue" "tBefore firstIssue" "tAfter firstIssue" "\<lambda>p. firstIssue" stocked]
  from T g k have a: "\<exists>cert. issuedOnce (certPathOf (''claude.ai'' @ ''.crt'')) = Some (PemCert cert)
         \<and> subject cert = [(''commonName'', ''claude.ai'')]
         \<and> extensions cert = [SubjectAltName [(2, ''claude.ai''), (2, ''*.'' @ ''claude.ai'')]]
         \<and> signedWith cert = 2"
    by auto
  note T2 = C9_issued_certificate [of stocked firstIssue "''claude.ai''" issuedOnce
            "certPathOf ''claude.ai.crt''" "certPathOf ''claude.ai.key''" "''claude.ai''" "Raw ''old''"
            "serverKeys firstIssue" "tBefore firstIssue" "tAfter firstIssue" "\<lambda>p. secondIssue" stocked]
  from T2 s1 s2 have s3: "stocked (certPathOf (''claude.ai'' @ ''.crt'')) = Some (Raw ''old'')"
    by blast
  from T m g have e: "setupEach (\<lambda>p. firstIssue) caFiles [''claude.ai''] = Inr issuedOnce"
    by simp
  from g a s3 s2 m e show ?thesis by blast
qed

text \<open>
  Claim C8. When the certificate or the key file of an intercepted host is missing,
  \<^verbatim>\<open>handleAIConnect\<close> ends the client socket with the line
  \<^verbatim>\<open>HTTP/1.1 500 Internal Server Error\<close> and does nothing else, so it never writes the 200
  line. Otherwise the line \<^verbatim>\<open>HTTP/1.1 200 Connection Established\<close> is the first thing it
  does, and it writes to the client socket and ends it at no later point: the line is
  written once. Wherever \<^verbatim>\<open>TLSSocket\<close> is called on the client socket, the 200 line has
  been written before; that call throws, so no handshake with the client follows it.
  With a certificate and a key in the files the whole sequence is as given.
\<close>

theorem C8_established_before_tls:
  "(\<not> existsSync fs (certPathOf (hostname @ ''.crt'')) \<or> \<not> existsSync fs (certPathOf (hostname @ ''.key''))
      \<longrightarrow> handleAIConnect fs hostname =
            [ClientEnd (''HTTP/1.1 500 Internal Server Error'' @ [CHR 0x0D, CHR 0x0A, CHR 0x0D, CHR 0x0A])])
   \<and> (existsSync fs (certPathOf (hostname @ ''.crt'')) \<and> existsSync fs (certPathOf (hostname @ ''.key''))
      \<longrightarrow> (\<exists>rest. handleAIConnect fs hostname =
                    ClientWrite (''HTTP/1.1 200 Connection Established'' @ [CHR 0x0D, CHR 0x0A, CHR 0x0D, CHR 0x0A])
                      # rest
                  \<and> (\<forall>s. ClientWrite s \<notin> set rest \<and> ClientEnd s \<notin> set rest)
                  \<and> ClientEndEmpty \<notin> set rest))
   \<and> (\<forall>before c k after.
         handleAIConnect fs hostname = before @ CallTLSSocket c k # after
         \<longrightarrow> ClientWrite (''HTTP/1.1 200 Connection Established'' @ [CHR 0x0D, CHR 0x0A, CHR 0x0D, CHR 0x0A])
                \<in> set before
             \<and> after = [UncaughtTypeError])
   \<and> (fs (certPathOf (hostname @ ''.crt'')) = Some (PemCert cert)
        \<and> fs (certPathOf (hostname @ ''.key'')) = Some (PemKey key)
      \<longrightarrow> handleAIConnect fs hostname =
            [ClientWrite (''HTTP/1.1 200 Connection Established'' @ [CHR 0x0D, CHR 0x0A, CHR 0x0D, CHR 0x0A]),
             ReadFile (certPathOf (hostname @ ''.crt'')), ReadFile (certPathOf (hostname @ ''.key'')),
             CreateHttpsServer (PemCert cert) (PemKey key), CallTLSSocket (PemCert cert) (PemKey key),
             UncaughtTypeError])"
proof (intro conjI)
  show "\<not> existsSync fs (certPathOf (hostname @ ''.crt'')) \<or> \<not> existsSync fs (certPathOf (hostname @ ''.key''))
      \<longrightarrow> handleAIConnect fs hostname =
            [ClientEnd (''HTTP/1.1 500 Internal Server Error'' @ [CHR 0x0D, CHR 0x0A, CHR 0x0D, CHR 0x0A])]"
    by (auto simp: handleAIConnect_def Let_def serverError_def)
  show "existsSync fs (certPathOf (hostname @ ''.crt'')) \<and> existsSync fs (certPathOf (hostname @ ''.key''))
      \<longrightarrow> (\<exists>rest. handleAIConnect fs hostname =
                    ClientWrite (''HTTP/1.1 200 Connection Established'' @ [CHR 0x0D, CHR 0x0A, CHR 0x0D, CHR 0x0A])
                      # rest
                  \<and> (\<forall>s. ClientWrite s \<notin> set rest \<and> ClientEnd s \<notin> set rest)
                  \<and> ClientEndEmpty \<notin> set rest)"
    by (auto simp: handleAIConnect_def Let_def established_def split: sum.splits)
  show "\<forall>before c k after.
         handleAIConnect fs hostname = before @ CallTLSSocket c k # after
         \<longrightarrow> ClientWrite (''HTTP/1.1 200 Connection Established'' @ [CHR 0x0D, CHR 0x0A, CHR 0x0D, CHR 0x0A])
                \<in> set before
             \<and> after = [UncaughtTypeError]"
    by (auto simp: handleAIConnect_def Let_def established_def Cons_eq_append_conv
             split: sum.splits if_splits)
  show "fs (certPathOf (hostname @ ''.crt'')) = Some (PemCert cert)
        \<and> fs (certPathOf (hostname @ ''.key'')) = Some (PemKey key)
      \<longrightarrow> handleAIConnect fs hostname =
            [ClientWrite (''HTTP/1.1 200 Connection Established'' @ [CHR 0x0D, CHR 0x0A, CHR 0x0D, CHR 0x0A]),
             ReadFile (certPathOf (hostname @ ''.crt'')), ReadFile (certPathOf (hostname @ ''.key'')),
             CreateHttpsServer (PemCert cert) (PemKey key), CallTLSSocket (PemCert cert) (PemKey key),
             UncaughtTypeError]"
    by (auto simp: handleAIConnect_def Let_def existsSync_def readFileSync_def established_def)
qed

text \<open>
  Claim C8 at \<^verbatim>\<open>claude.ai\<close>: in a directory without its files, and in one where they have
  been generated.
\<close>

theorem C8_established_before_tls_witness:
  "\<not> existsSync caFiles (certPathOf (''claude.ai'' @ ''.crt''))
   \<and> handleAIConnect caFiles ''claude.ai'' =
       [ClientEnd (''HTTP/1.1 500 Internal Server Error'' @ [CHR 0x0D, CHR 0x0A, CHR 0x0D, CHR 0x0A])]
   \<and> existsSync issuedOnce (certPathOf (''claude.ai'' @ ''.crt''))
   \<and> existsSync issuedOnce (certPathOf (''claude.ai'' @ ''.key''))
   \<and> (\<exists>cert key. issuedOnce (certPathOf (''claude.ai'' @ ''.crt'')) = Some (PemCert cert)
        \<and> issuedOnce (certPathOf (''claude.ai'' @ ''.key'')) = Some (PemKey key)
        \<and> handleAIConnect issuedOnce ''claude.ai'' =
            [ClientWrite (''HTTP/1.1 200 Connection Established'' @ [CHR 0x0D, CHR 0x0A, CHR 0x0D, CHR 0x0A]),
             ReadFile (certPathOf (''claude.ai'' @ ''.crt'')), ReadFile (certPathOf (''claude.ai'' @ ''.key'')),
             CreateHttpsServer (PemCert cert) (PemKey key), CallTLSSocket (PemCert cert) (PemKey key),
             UncaughtTypeError])"
proof -
  have h1: "\<not> existsSync caFiles (certPathOf (''claude.ai'' @ ''.crt''))"
    by (simp add: caFiles_def generateCA_def certPathOf_def existsSync_def Let_def)
  have h2: "\<exists>cert key. issuedOnce (certPathOf (''claude.ai'' @ ''.crt'')) = Some (PemCert cert)
        \<and> issuedOnce (certPathOf (''claude.ai'' @ ''.key'')) = Some (PemKey key)"
    by (simp add: issuedOnce_def filesAfter_def generateServerCert_def readFileSync_def caFiles_def
          generateCA_def certPathOf_def Let_def)
  then obtain cert key where h3: "issuedOnce (certPathOf (''claude.ai'' @ ''.crt'')) = Some (PemCert cert)"
       "issuedOnce (certPathOf (''claude.ai'' @ ''.key'')) = Some (PemKey key)" by blast
  then have h4: "existsSync issuedOnce (certPathOf (''claude.ai'' @ ''.crt''))"
                "existsSync issuedOnce (certPathOf (''claude.ai'' @ ''.key''))"
    by (simp_all add: existsSync_def)
  note A = C8_established_before_tls [of caFiles "''claude.ai''", THEN conjunct1, THEN mp, OF disjI1, OF h1]
  note B = C8_established_before_tls [of issuedOnce "''claude.ai''" cert key,
             THEN conjunct2, THEN conjunct2, THEN conjunct2, THEN mp, OF conjI, OF h3]
  from h1 A h4 h3 B show ?thesis by blast
qed

lemma extractPrompt_parse_failure:
  assumes "JSON_parse rt bdy = None"
  shows "extractPrompt rt bdy = JStr (take 1000 bdy)"
    and "extractPrompt_s2 rt bdy = JStr (take 1000 bdy)"
    and "extractPrompt_p1 rt bdy = JStr []"
  using assms by (simp_all add: extractPrompt_def extractPrompt_s2_def extractPrompt_p1_def substring0_def)

lemma extractPrompt_s2_order:
  assumes "JSON_parse rt bdy = Some (JObj kvs)"
      and "map_of kvs ''messages'' = None"
  shows "extractPrompt_s2 rt bdy =
           (if truthyOpt (map_of kvs ''prompt'') then the (map_of kvs ''prompt'')
            else if truthyOpt (map_of kvs ''input'') then the (map_of kvs ''input'')
            else if truthyOpt (map_of kvs ''text'') then the (map_of kvs ''text'')
            else if truthyOpt (map_of kvs ''query'') then the (map_of kvs ''query'')
            else JStr [])"
proof -
  have r: "\<And>v rest. returnIfTruthy v rest = (if truthyOpt v then Inr (the v) else rest)"
    subgoal for v rest by (cases v) simp_all
    done
  show ?thesis
    using assms by (simp add: extractPrompt_s2_def extractPrompt_s2_try_def r)
qed

lemma extractPrompt_order:
  assumes "JSON_parse rt bdy = Some (JObj kvs)"
      and "map_of kvs ''messages'' = None"
  shows "extractPrompt rt bdy =
           (if truthyOpt (map_of kvs ''prompt'') then the (map_of kvs ''prompt'')
            else if truthyOpt (map_of kvs ''input'') then the (map_of kvs ''input'')
            else if truthyOpt (map_of kvs ''text'') then the (map_of kvs ''text'')
            else JStr [])"
proof -
  have r: "\<And>v rest. returnIfTruthy v rest = (if truthyOpt v then Inr (the v) else rest)"
    subgoal for v rest by (cases v) simp_all
    done
  show ?thesis
    using assms by (simp add: extractPrompt_def extractPrompt_try_def r)
qed

lemma extractPrompt_examples:
  "extractPrompt (alarmRuntime (Some (JObj [(''messages'', JArr [JObj [(''content'', JStr ''A'')], JObj [(''content'', JStr ''B'')]])]))) b = JStr ''B''"
  "extractPrompt (alarmRuntime (Some (JObj [(''prompt'', JStr ''X''), (''input'', JStr ''Y'')]))) b = JStr ''X''"
  "extractPrompt_s2 (alarmRuntime (Some (JObj [(''messages'', JArr [JObj [(''content'', JStr ''A'')], JObj [(''content'', JStr ''B'')]])]))) b = JStr ''B''"
  "extractPrompt_s2 (alarmRuntime (Some (JObj [(''prompt'', JStr ''X''), (''input'', JStr ''Y'')]))) b = JStr ''X''"
  "extractPrompt_p1 (alarmRuntime (Some (JObj [(''messages'', JArr [JObj [(''content'', JStr ''A'')], JObj [(''content'', JStr ''B'')]])]))) b = JStr ''B''"
  "extractPrompt_p1 (alarmRuntime (Some (JObj [(''prompt'', JStr ''X''), (''input'', JStr ''Y'')]))) b = JStr ''X''"
  by (simp_all add: extractPrompt_def extractPrompt_try_def extractPrompt_s2_def extractPrompt_s2_try_def
        extractPrompt_p1_def extractPrompt_p1_try_def alarmRuntime_def fixedRuntime_def lastElem_def)

lemma longPrompt_empty: "longPrompt rt (JStr []) = Inr False"
  by (simp add: longPrompt_def)

text \<open>
  Claim C10. When the body parses to an object whose \<^verbatim>\<open>messages\<close> is an array, all three
  implementations of \<^verbatim>\<open>extractPrompt\<close> return what the array alone determines: the
  \<^verbatim>\<open>content\<close> of its last element when that is an object with a truthy \<^verbatim>\<open>content\<close>, the
  empty string otherwise, in particular when the array is empty. No other field of the
  object is read. With an empty array every handler skips classification, forwards the
  request and counts it as allowed.
\<close>

theorem C10_messages_branch_commits:
  assumes "JSON_parse rt bdy = Some (JObj kvs)"
      and "map_of kvs ''messages'' = Some (JArr ms)"
  shows "(let r = (case ms of
                     [] \<Rightarrow> JStr []
                   | m # rest \<Rightarrow>
                       (case last ms of
                          JObj props \<Rightarrow>
                            (case map_of props ''content'' of
                               None \<Rightarrow> JStr []
                             | Some c \<Rightarrow> if truthy c then c else JStr [])
                        | _ \<Rightarrow> JStr []))
          in extractPrompt rt bdy = r \<and> extractPrompt_s2 rt bdy = r \<and> extractPrompt_p1 rt bdy = r)
       \<and> (ms = [] \<longrightarrow>
            handleAIPlatform_end rt d st host bdy =
              (st\<lparr>requestsAllowed := requestsAllowed st + 1\<rparr>, [ForwardRequest host bdy])
          \<and> handleChatRequest_s2 rt d st host bdy =
              (st\<lparr>requestsAllowed := requestsAllowed st + 1\<rparr>, [ForwardRequest host bdy])
          \<and> handleChatRequest_p1_end rt d st host bdy =
              (st\<lparr>requestsAllowed := requestsAllowed st + 1\<rparr>, [ForwardRequest host bdy]))"
proof -
  let ?r = "orElse (optProp (lastElem ms) ''content'') (JStr [])"
  have e: "extractPrompt rt bdy = ?r" "extractPrompt_s2 rt bdy = ?r" "extractPrompt_p1 rt bdy = ?r"
    using assms
    by (simp_all add: extractPrompt_def extractPrompt_try_def extractPrompt_s2_def extractPrompt_s2_try_def
          extractPrompt_p1_def extractPrompt_p1_try_def)
  have r: "?r = (case ms of
                     [] \<Rightarrow> JStr []
                   | m # rest \<Rightarrow>
                       (case last ms of
                          JObj props \<Rightarrow>
                            (case map_of props ''content'' of
                               None \<Rightarrow> JStr []
                             | Some c \<Rightarrow> if truthy c then c else JStr [])
                        | _ \<Rightarrow> JStr []))"
    by (cases ms) (auto simp: lastElem_def split: json.splits option.splits)
  have h: "ms = [] \<Longrightarrow>
            handleAIPlatform_end rt d st host bdy =
              (st\<lparr>requestsAllowed := requestsAllowed st + 1\<rparr>, [ForwardRequest host bdy])
          \<and> handleChatRequest_s2 rt d st host bdy =
              (st\<lparr>requestsAllowed := requestsAllowed st + 1\<rparr>, [ForwardRequest host bdy])
          \<and> handleChatRequest_p1_end rt d st host bdy =
              (st\<lparr>requestsAllowed := requestsAllowed st + 1\<rparr>, [ForwardRequest host bdy])"
    using e by (simp add: handleAIPlatform_end_def handleChatRequest_s2_def handleChatRequest_p1_end_def
                  lastElem_def longPrompt_empty Let_def)
  from e r h show ?thesis by (simp add: Let_def)
qed

text \<open>
  Claim C10 at the body \<^verbatim>\<open>{"messages":[],"prompt":"X"}\<close>: the empty string is extracted
  and the request is forwarded.
\<close>

theorem C10_messages_branch_commits_witness:
  "JSON_parse (alarmRuntime (Some emptyMessagesData)) emptyMessagesBody
      = Some (JObj [(''messages'', JArr []), (''prompt'', JStr ''X'')])
   \<and> map_of [(''messages'', JArr []), (''prompt'', JStr ''X'')] ''messages'' = Some (JArr [])
   \<and> extractPrompt (alarmRuntime (Some emptyMessagesData)) emptyMessagesBody = JStr []
   \<and> handleAIPlatform_end (alarmRuntime (Some emptyMessagesData)) detector0 stats0 ''claude.ai'' emptyMessagesBody =
       (stats0\<lparr>requestsAllowed := requestsAllowed stats0 + 1\<rparr>, [ForwardRequest ''claude.ai'' emptyMessagesBody])"
proof -
  have h1: "JSON_parse (alarmRuntime (Some emptyMessagesData)) emptyMessagesBody
      = Some (JObj [(''messages'', JArr []), (''prompt'', JStr ''X'')])"
    by (simp add: alarmRuntime_def fixedRuntime_def emptyMessagesData_def)
  have h2: "map_of [(''messages'', JArr []), (''prompt'', JStr ''X'')] ''messages'' = Some (JArr [])"
    by simp
  show ?thesis
    using h1 h2 C10_messages_branch_commits [OF h1 h2, of detector0 stats0 "''claude.ai''"]
    by (simp add: Let_def)
qed

end
